theory Spec2Isabelle
  imports
    Complex_Main
    "HOL-Library.AList"
    "HOL-Library.Char_ord"
    "HOL-Library.List_Lexorder"
    "HOL-Library.Log_Nat"
begin

section \<open>The PayPal NVP client of \<^verbatim>\<open>paypal.go\<close>\<close>

text \<open>
  The development embeds the single source file \<^verbatim>\<open>paypal.go\<close>: the request builders,
  \<^verbatim>\<open>PerformRequest\<close>, the response helpers and the error type. Go strings are byte
  sequences, here \<^typ>\<open>string\<close>. What the file takes from the Go standard library is either
  written out from its documented behaviour (\<^verbatim>\<open>url.Values\<close>, \<^verbatim>\<open>url.QueryEscape\<close>,
  \<^verbatim>\<open>fmt.Sprintf\<close> for the three formats that occur, float64 arithmetic) or, where it is an
  open-ended parser or the network, taken as a parameter (\<^verbatim>\<open>url.ParseQuery\<close>, the grammar
  of \<^verbatim>\<open>strconv.ParseFloat\<close>, the HTTP transport, the Unicode case table).
  Pointer receivers and pointer arguments are modelled by the value they point to.
\<close>

subsection \<open>Constants\<close>

definition NVP_SANDBOX_URL :: string where
  "NVP_SANDBOX_URL = ''https://api-3t.sandbox.paypal.com/nvp''"

definition NVP_PRODUCTION_URL :: string where
  "NVP_PRODUCTION_URL = ''https://api-3t.paypal.com/nvp''"

definition CHECKOUT_SANDBOX_URL :: string where
  "CHECKOUT_SANDBOX_URL = ''https://www.sandbox.paypal.com/cgi-bin/webscr''"

definition CHECKOUT_PRODUCTION_URL :: string where
  "CHECKOUT_PRODUCTION_URL = ''https://www.paypal.com/cgi-bin/webscr''"

definition NVP_VERSION :: string where
  "NVP_VERSION = ''94''"

subsection \<open>Decimal output of integers: the verb \<^verbatim>\<open>%d\<close>\<close>

definition digit :: "nat \<Rightarrow> char" where
  "digit n = ''0123456789'' ! (n mod 10)"

definition digit_val :: "char \<Rightarrow> nat" where
  "digit_val c = of_char c - 48"

definition is_digit :: "char \<Rightarrow> bool" where
  "is_digit c = (48 \<le> (of_char c :: nat) \<and> (of_char c :: nat) \<le> 57)"

function itoa :: "nat \<Rightarrow> string" where
  "itoa n = (if n < 10 then [digit n] else itoa (n div 10) @ [digit (n mod 10)])"
  by pat_completeness auto
termination
  by (relation "measure (\<lambda>n. n)") auto

declare itoa.simps [simp del]

text \<open>The value a digit string denotes, most significant digit first.\<close>

definition atoi :: "string \<Rightarrow> nat" where
  "atoi s = foldl (\<lambda>a c. 10 * a + digit_val c) 0 s"

text \<open>\<^verbatim>\<open>fmt.Sprintf("%d", i)\<close> for a Go \<^verbatim>\<open>int\<close>.\<close>

definition Sprintf_d :: "int \<Rightarrow> string" where
  "Sprintf_d i = (if i < 0 then ''-'' @ itoa (nat (- i)) else itoa (nat i))"

text \<open>\<^verbatim>\<open>fmt.Sprintf("%s%d", s, i)\<close>: the indexed field names.\<close>

definition Sprintf_s_d :: "string \<Rightarrow> int \<Rightarrow> string" where
  "Sprintf_s_d s i = s @ Sprintf_d i"

subsection \<open>\<^verbatim>\<open>url.Values\<close>\<close>

text \<open>
  \<^verbatim>\<open>url.Values\<close> is \<^verbatim>\<open>map[string][]string\<close>. It is kept as an association list read
  through \<^const>\<open>map_of\<close>; \<^const>\<open>AList.update\<close> replaces the entry of a key that is
  present and adds one otherwise, so a key never occurs twice in a value built here.
  The order of the entries is not observable: \<^verbatim>\<open>Encode\<close> sorts the keys.
\<close>

type_synonym Values = "(string \<times> string list) list"

text \<open>The Go expression \<^verbatim>\<open>v[key]\<close>: the values of a key, nil when the key is absent.\<close>

definition Values_index :: "Values \<Rightarrow> string \<Rightarrow> string list" where
  "Values_index v key = (case map_of v key of None \<Rightarrow> [] | Some vs \<Rightarrow> vs)"

definition Values_Get :: "Values \<Rightarrow> string \<Rightarrow> string" where
  "Values_Get v key = (case Values_index v key of [] \<Rightarrow> [] | x # _ \<Rightarrow> x)"

definition Values_Set :: "Values \<Rightarrow> string \<Rightarrow> string \<Rightarrow> Values" where
  "Values_Set v key val = AList.update key [val] v"

definition Values_Add :: "Values \<Rightarrow> string \<Rightarrow> string \<Rightarrow> Values" where
  "Values_Add v key val = AList.update key (Values_index v key @ [val]) v"

text \<open>
  \<^verbatim>\<open>url.QueryEscape\<close>: letters, digits and \<^verbatim>\<open>- _ . ~\<close> stay, a space becomes \<^verbatim>\<open>+\<close>,
  every other byte becomes \<^verbatim>\<open>%XX\<close> in upper-case hexadecimal.
\<close>

definition unreserved :: "char \<Rightarrow> bool" where
  "unreserved c =
     (let n = (of_char c :: nat) in
      (97 \<le> n \<and> n \<le> 122) \<or> (65 \<le> n \<and> n \<le> 90) \<or> (48 \<le> n \<and> n \<le> 57)
      \<or> c = CHR ''-'' \<or> c = CHR ''_'' \<or> c = CHR ''.'' \<or> c = CHR ''~'')"

definition upperhex :: "nat \<Rightarrow> char" where
  "upperhex n = ''0123456789ABCDEF'' ! (n mod 16)"

definition escape_byte :: "char \<Rightarrow> string" where
  "escape_byte c =
     (if unreserved c then [c]
      else if c = CHR '' '' then ''+''
      else [CHR ''%'', upperhex ((of_char c :: nat) div 16), upperhex ((of_char c :: nat) mod 16)])"

definition QueryEscape :: "string \<Rightarrow> string" where
  "QueryEscape s = concat (map escape_byte s)"

text \<open>
  \<^verbatim>\<open>Values.Encode\<close>: the keys in sorted (bytewise) order, each value of a key as
  \<^verbatim>\<open>key=value\<close>, both escaped, the pairs joined by \<^verbatim>\<open>&\<close>.
\<close>

fun join_amp :: "string list \<Rightarrow> string" where
  "join_amp [] = []"
| "join_amp [x] = x"
| "join_amp (x # y # ys) = x @ ''&'' @ join_amp (y # ys)"

definition Values_Encode :: "Values \<Rightarrow> string" where
  "Values_Encode v =
     join_amp (concat (map (\<lambda>k. map (\<lambda>val. QueryEscape k @ ''='' @ QueryEscape val) (Values_index v k))
                           (sort (remdups (map fst v)))))"

subsection \<open>float64\<close>

text \<open>
  A float64 is a finite number, a signed zero, an infinity or a NaN. \<open>Finite x\<close> carries the
  exact value \<open>x\<close>, with \<open>Finite 0\<close> for \<^verbatim>\<open>+0\<close>; \<open>NegZero\<close> is \<^verbatim>\<open>-0\<close>. Every finite
  float64 is \<open>Finite x\<close> for a dyadic rational \<open>x\<close>; the theorems below hold for every
  rational \<open>x\<close>. Arithmetic rounds its exact result to the nearest binary64 number, ties to
  even (53 significant bits, exponents from \<open>-1022\<close> to \<open>1023\<close>, gradual underflow); a
  result whose rounded magnitude reaches \<open>2 ^ 1024\<close> is an infinity.
\<close>

datatype float64 = Finite rat | NegZero | PosInf | NegInf | NaN

definition pow2 :: "int \<Rightarrow> rat" where
  "pow2 e = (if 0 \<le> e then 2 ^ nat e else 1 / 2 ^ nat (- e))"

definition round_half_even :: "rat \<Rightarrow> int" where
  "round_half_even x =
     (let f = \<lfloor>x\<rfloor>; d = x - of_int f
      in if d < 1 / 2 then f
         else if 1 / 2 < d then f + 1
         else if even f then f else f + 1)"

text \<open>The floor of the binary logarithm of a positive rational.\<close>

definition ilog2 :: "rat \<Rightarrow> int" where
  "ilog2 x =
     (let d = bitlen (fst (quotient_of x)) - bitlen (snd (quotient_of x))
      in if pow2 d \<le> x then d else d - 1)"

definition round64 :: "rat \<Rightarrow> float64" where
  "round64 x =
     (let a = \<bar>x\<bar>;
          e = max (ilog2 a) (- 1022);
          u = pow2 (e - 52);
          m = round_half_even (a / u);
          y = of_int m * u
      in if x = 0 then Finite 0
         else if m = 0 then (if x < 0 then NegZero else Finite 0)
         else if 1024 \<le> ilog2 y then (if x < 0 then NegInf else PosInf)
         else Finite (if x < 0 then - y else y))"

definition is_neg :: "float64 \<Rightarrow> bool" where
  "is_neg a = (case a of Finite x \<Rightarrow> x < 0 | NegZero \<Rightarrow> True | NegInf \<Rightarrow> True
                 | PosInf \<Rightarrow> False | NaN \<Rightarrow> False)"

definition is_zero :: "float64 \<Rightarrow> bool" where
  "is_zero a = (case a of Finite x \<Rightarrow> x = 0 | NegZero \<Rightarrow> True | _ \<Rightarrow> False)"

definition is_inf :: "float64 \<Rightarrow> bool" where
  "is_inf a = (a = PosInf \<or> a = NegInf)"

definition is_finite :: "float64 \<Rightarrow> bool" where
  "is_finite a = (case a of Finite x \<Rightarrow> True | NegZero \<Rightarrow> True | _ \<Rightarrow> False)"

definition value_of :: "float64 \<Rightarrow> rat" where
  "value_of a = (case a of Finite x \<Rightarrow> x | _ \<Rightarrow> 0)"

text \<open>The Go operators \<^verbatim>\<open>+\<close>, \<^verbatim>\<open>*\<close>, unary \<^verbatim>\<open>-\<close> and \<^verbatim>\<open>> 0\<close> on float64.\<close>

definition fadd :: "float64 \<Rightarrow> float64 \<Rightarrow> float64" where
  "fadd a b =
     (if a = NaN \<or> b = NaN then NaN
      else if is_inf a \<or> is_inf b then
        (if is_inf a \<and> is_inf b \<and> a \<noteq> b then NaN else if is_inf a then a else b)
      else if a = NegZero \<and> b = NegZero then NegZero
      else round64 (value_of a + value_of b))"

definition fmul :: "float64 \<Rightarrow> float64 \<Rightarrow> float64" where
  "fmul a b =
     (if a = NaN \<or> b = NaN then NaN
      else if is_inf a \<or> is_inf b then
        (if is_zero a \<or> is_zero b then NaN
         else if is_neg a \<noteq> is_neg b then NegInf else PosInf)
      else if is_zero a \<or> is_zero b then
        (if is_neg a \<noteq> is_neg b then NegZero else Finite 0)
      else round64 (value_of a * value_of b))"

definition fneg :: "float64 \<Rightarrow> float64" where
  "fneg a = (case a of Finite x \<Rightarrow> (if x = 0 then NegZero else Finite (- x))
               | NegZero \<Rightarrow> Finite 0 | PosInf \<Rightarrow> NegInf | NegInf \<Rightarrow> PosInf | NaN \<Rightarrow> NaN)"

definition gt_zero :: "float64 \<Rightarrow> bool" where
  "gt_zero a = (case a of Finite x \<Rightarrow> 0 < x | PosInf \<Rightarrow> True | _ \<Rightarrow> False)"

text \<open>The conversion \<^verbatim>\<open>float64(i)\<close> of a Go \<^verbatim>\<open>int\<close>.\<close>

definition float64_of_int :: "int \<Rightarrow> float64" where
  "float64_of_int i = round64 (of_int i)"

text \<open>
  \<^verbatim>\<open>fmt.Sprintf("%.2f", x)\<close>: the exact value rounded to two decimals, ties to even,
  printed as an optional minus sign, the integer digits, a point and two digits; the
  infinities and NaN are printed as \<^verbatim>\<open>+Inf\<close>, \<^verbatim>\<open>-Inf\<close> and \<^verbatim>\<open>NaN\<close>.
\<close>

definition hundredths :: "rat \<Rightarrow> nat" where
  "hundredths x = nat (round_half_even (\<bar>x\<bar> * 100))"

definition Sprintf_2f :: "float64 \<Rightarrow> string" where
  "Sprintf_2f a =
     (case a of
        NaN \<Rightarrow> ''NaN''
      | PosInf \<Rightarrow> ''+Inf''
      | NegInf \<Rightarrow> ''-Inf''
      | NegZero \<Rightarrow> ''-0.00''
      | Finite x \<Rightarrow>
          (if x < 0 then ''-'' else [])
          @ itoa (hundredths x div 100) @ ''.''
          @ [digit (hundredths x mod 100 div 10), digit (hundredths x mod 10)])"

subsection \<open>\<^verbatim>\<open>strings.ToLower\<close>\<close>

text \<open>Bytewise on an ASCII string, through the Unicode case table (a parameter) on any
  other string.\<close>

definition lower_byte :: "char \<Rightarrow> char" where
  "lower_byte c =
     (if 65 \<le> (of_char c :: nat) \<and> (of_char c :: nat) \<le> 90
      then char_of ((of_char c :: nat) + 32) else c)"

definition ToLower :: "(string \<Rightarrow> string) \<Rightarrow> string \<Rightarrow> string" where
  "ToLower unicodeLower s =
     (if list_all (\<lambda>c. (of_char c :: nat) < 128) s then map lower_byte s else unicodeLower s)"

subsection \<open>\<^verbatim>\<open>strconv.ParseFloat\<close>\<close>

text \<open>
  \<^verbatim>\<open>strconv.ParseFloat\<close> returns 0 with \<^verbatim>\<open>ErrSyntax\<close> on a text that is not a number,
  an infinity with \<^verbatim>\<open>ErrRange\<close> on a number too large for a float64, and the nearest
  float64 with no error otherwise. Which texts are numbers, and what they denote, is the
  parameter \<open>classify\<close>; the flag of \<open>OutOfRange\<close> is the sign (true for negative).
\<close>

datatype NumError = ErrSyntax | ErrRange

datatype numeral_class = IllFormed | OutOfRange bool | Numeral float64

definition ParseFloat :: "(string \<Rightarrow> numeral_class) \<Rightarrow> string \<Rightarrow> float64 \<times> NumError option" where
  "ParseFloat classify s =
     (case classify s of
        IllFormed \<Rightarrow> (Finite 0, Some ErrSyntax)
      | OutOfRange neg \<Rightarrow> (if neg then NegInf else PosInf, Some ErrRange)
      | Numeral f \<Rightarrow> (f, None))"

subsection \<open>Data model\<close>

text \<open>
  The transport: \<^verbatim>\<open>client.PostForm(endpoint, values)\<close> either fails or gives a response
  whose body \<^verbatim>\<open>ioutil.ReadAll\<close> either fails to read or reads to the end. The type \<open>'e\<close>
  is that of the errors of the libraries underneath.
\<close>

type_synonym 'e http_Response = "'e + string"

type_synonym 'e http_Client = "string \<Rightarrow> Values \<Rightarrow> 'e + 'e http_Response"

record 'e PayPalClient =
  username :: string
  password :: string
  signature :: string
  usesSandbox :: bool
  client :: "'e http_Client"

record PayPalOrder =
  SubTotal :: float64
  Shipping :: float64
  Discount :: float64
  Total :: float64
  CurrencyCode :: string
  ReturnUrl :: string
  CancelUrl :: string

record PayPalDigitalGood =
  Name :: string
  Amount :: float64
  Quantity :: int

record PayPalGood =
  Id :: string
  Name :: string
  Amount :: float64
  Quantity :: int

record PayPalResponse =
  Ack :: string
  CorrelationId :: string
  Timestamp :: string
  Version :: string
  Build :: string
  Token :: string
  Values :: Values
  usedSandbox :: bool

record PayPalPaymentResponse =
  TransactionId :: string
  Status :: string
  Type :: string
  Fee :: float64
  Amount :: float64
  Currency :: string
  ReasonCode :: string

record PayPalError =
  Ack :: string
  ErrorCode :: string
  ShortMessage :: string
  LongMessage :: string
  SeverityCode :: string

text \<open>A non-nil Go \<^verbatim>\<open>error\<close> here is an error of a library or a \<^verbatim>\<open>*PayPalError\<close>.\<close>

datatype 'e error = External 'e | PayPalErr PayPalError

text \<open>The library functions \<^verbatim>\<open>PerformRequest\<close> is given: \<^verbatim>\<open>url.ParseQuery\<close>, which returns
  a mapping and possibly an error, and the Unicode part of \<^verbatim>\<open>strings.ToLower\<close>.\<close>

record 'e library =
  ParseQuery :: "string \<Rightarrow> Values \<times> 'e option"
  unicodeLower :: "string \<Rightarrow> string"

subsection \<open>Operations\<close>

definition Error :: "PayPalError \<Rightarrow> string" where
  "Error e =
     (if length (ErrorCode e) \<noteq> 0 \<and> length (ShortMessage e) \<noteq> 0 then
        ''PayPal Error '' @ ErrorCode e @ '': '' @ ShortMessage e
      else if length (PayPalError.Ack e) \<noteq> 0 then PayPalError.Ack e
      else ''PayPal is undergoing maintenance.'' @ [CHR 0x0A] @ ''Please try again later.'')"

definition CheckoutUrl :: "PayPalResponse \<Rightarrow> string" where
  "CheckoutUrl r =
     (let query = [];
          query = Values_Set query ''cmd'' ''_express-checkout'';
          query = Values_Add query ''token'' (Token r);
          checkoutUrl = (if usedSandbox r then CHECKOUT_SANDBOX_URL else CHECKOUT_PRODUCTION_URL)
      in checkoutUrl @ ''?'' @ Values_Encode query)"

text \<open>The \<^verbatim>\<open>range\<close> loop of \<^verbatim>\<open>SumPayPalDigitalGoodAmounts\<close>; \<open>s\<close> is the running \<^verbatim>\<open>sum\<close>.\<close>

fun sum_range :: "float64 \<Rightarrow> PayPalDigitalGood list \<Rightarrow> float64" where
  "sum_range s [] = s"
| "sum_range s (dg # goods) =
     sum_range (fadd s (fmul (PayPalDigitalGood.Amount dg)
                               (float64_of_int (PayPalDigitalGood.Quantity dg)))) goods"

definition SumPayPalDigitalGoodAmounts :: "PayPalDigitalGood list \<Rightarrow> float64" where
  "SumPayPalDigitalGoodAmounts goods = sum_range (Finite 0) goods"

text \<open>What \<^verbatim>\<open>PerformRequest\<close> posts, and where.\<close>

definition request_values :: "'e PayPalClient \<Rightarrow> Values \<Rightarrow> Values" where
  "request_values pClient values =
     (let values = Values_Add values ''USER'' (username pClient);
          values = Values_Add values ''PWD'' (password pClient);
          values = Values_Add values ''SIGNATURE'' (signature pClient);
          values = Values_Add values ''VERSION'' NVP_VERSION
      in values)"

definition request_endpoint :: "'e PayPalClient \<Rightarrow> string" where
  "request_endpoint pClient = (if usesSandbox pClient then NVP_SANDBOX_URL else NVP_PRODUCTION_URL)"

text \<open>A nil \<^verbatim>\<open>*PayPalResponse\<close> is \<open>None\<close>, a nil \<^verbatim>\<open>error\<close> is \<open>None\<close>.\<close>

definition PerformRequest ::
  "'e library \<Rightarrow> 'e PayPalClient \<Rightarrow> Values \<Rightarrow> PayPalResponse option \<times> 'e error option" where
  "PerformRequest lib pClient values =
     (case client pClient (request_endpoint pClient) (request_values pClient values) of
        Inl err \<Rightarrow> (None, Some (External err))
      | Inr formResponse \<Rightarrow>
          (case formResponse of
             Inl err \<Rightarrow> (None, Some (External err))
           | Inr body \<Rightarrow>
               (case ParseQuery lib body of
                  (responseValues, Some err) \<Rightarrow>
                    (Some \<lparr>PayPalResponse.Ack = [], CorrelationId = [], Timestamp = [],
                            Version = [], Build = [], Token = [], Values = [],
                            usedSandbox = usesSandbox pClient\<rparr>,
                     Some (External err))
                | (responseValues, None) \<Rightarrow>
                    (let response =
                           \<lparr>PayPalResponse.Ack = Values_Get responseValues ''ACK'',
                            CorrelationId = Values_Get responseValues ''CORRELATIONID'',
                            Timestamp = Values_Get responseValues ''TIMESTAMP'',
                            Version = Values_Get responseValues ''VERSION'',
                            Build = Values_Get responseValues ''BUILD'',
                            Token = Values_Get responseValues ''TOKEN'',
                            Values = responseValues,
                            usedSandbox = usesSandbox pClient\<rparr>;
                         errorCode = Values_Get responseValues ''L_ERRORCODE0''
                     in if length errorCode \<noteq> 0
                           \<or> ToLower (unicodeLower lib) (PayPalResponse.Ack response) = ''failure''
                           \<or> ToLower (unicodeLower lib) (PayPalResponse.Ack response) = ''failurewithwarning''
                        then
                          (Some response,
                           Some (PayPalErr
                             \<lparr>PayPalError.Ack = PayPalResponse.Ack response,
                              ErrorCode = errorCode,
                              ShortMessage = Values_Get responseValues ''L_SHORTMESSAGE0'',
                              LongMessage = Values_Get responseValues ''L_LONGMESSAGE0'',
                              SeverityCode = Values_Get responseValues ''L_SEVERITYCODE0''\<rparr>))
                        else (Some response, None)))))"

text \<open>\<^verbatim>\<open>Populate\<close> has no result but the receiver it fills. The bit size 10 it passes to
  \<^verbatim>\<open>ParseFloat\<close> is neither 32 nor 64 and selects float64; the error of each call is
  dropped.\<close>

definition Populate ::
  "(string \<Rightarrow> numeral_class) \<Rightarrow> PayPalPaymentResponse \<Rightarrow> Values \<Rightarrow> PayPalPaymentResponse" where
  "Populate classify response values =
     (let response = response\<lparr>TransactionId := Values_Get values ''PAYMENTINFO_0_TRANSACTIONID''\<rparr>;
          response = response\<lparr>Status := Values_Get values ''PAYMENTINFO_0_PAYMENTSTATUS''\<rparr>;
          paymentAmt = Values_Get values ''PAYMENTINFO_0_AMT'';
          response = response\<lparr>PayPalPaymentResponse.Amount := fst (ParseFloat classify paymentAmt)\<rparr>;
          feeAmt = Values_Get values ''PAYMENTINFO_0_FEEAMT'';
          response = response\<lparr>Fee := fst (ParseFloat classify feeAmt)\<rparr>;
          response = response\<lparr>Currency := Values_Get values ''PAYMENTINFO_0_CURRENCYCODE''\<rparr>;
          response = response\<lparr>Type := Values_Get values ''PAYMENTINFO_0_PAYMENTTYPE''\<rparr>;
          response = response\<lparr>ReasonCode := Values_Get values ''PAYMENTINFO_0_REASONCODE''\<rparr>
      in response)"

text \<open>The loop \<^verbatim>\<open>for i := 0; i < len(goods); i++\<close> of \<^verbatim>\<open>SetExpressCheckoutDigitalGoods\<close>,
  from index \<open>i\<close>.\<close>

function digital_goods_loop :: "PayPalDigitalGood list \<Rightarrow> nat \<Rightarrow> Values \<Rightarrow> Values" where
  "digital_goods_loop goods i values =
     (if i < length goods then
        (let good = goods ! i;
             values = Values_Add values (Sprintf_s_d ''L_PAYMENTREQUEST_0_NAME'' (int i))
                        (PayPalDigitalGood.Name good);
             values = Values_Add values (Sprintf_s_d ''L_PAYMENTREQUEST_0_AMT'' (int i))
                        (Sprintf_2f (PayPalDigitalGood.Amount good));
             values = Values_Add values (Sprintf_s_d ''L_PAYMENTREQUEST_0_QTY'' (int i))
                        (Sprintf_d (PayPalDigitalGood.Quantity good));
             values = Values_Add values (Sprintf_s_d ''L_PAYMENTREQUEST_0_ITEMCATEGORY'' (int i))
                        ''Digital''
         in digital_goods_loop goods (i + 1) values)
      else values)"
  by pat_completeness auto
termination
  by (relation "measure (\<lambda>(goods, i, values). length goods - i)") auto

declare digital_goods_loop.simps [simp del]

text \<open>The parameter set \<^verbatim>\<open>SetExpressCheckoutDigitalGoods\<close> hands to \<^verbatim>\<open>PerformRequest\<close>.\<close>

definition SetExpressCheckoutDigitalGoods_values ::
  "float64 \<Rightarrow> string \<Rightarrow> string \<Rightarrow> string \<Rightarrow> PayPalDigitalGood list \<Rightarrow> Values" where
  "SetExpressCheckoutDigitalGoods_values paymentAmount currencyCode returnURL cancelURL goods =
     (let values = [];
          values = Values_Set values ''METHOD'' ''SetExpressCheckout'';
          values = Values_Add values ''PAYMENTREQUEST_0_AMT'' (Sprintf_2f paymentAmount);
          values = Values_Add values ''PAYMENTREQUEST_0_PAYMENTACTION'' ''Sale'';
          values = Values_Add values ''PAYMENTREQUEST_0_CURRENCYCODE'' currencyCode;
          values = Values_Add values ''RETURNURL'' returnURL;
          values = Values_Add values ''CANCELURL'' cancelURL;
          values = Values_Add values ''REQCONFIRMSHIPPING'' ''0'';
          values = Values_Add values ''NOSHIPPING'' ''1'';
          values = Values_Add values ''SOLUTIONTYPE'' ''Sole''
      in digital_goods_loop goods 0 values)"

definition SetExpressCheckoutDigitalGoods ::
  "'e library \<Rightarrow> 'e PayPalClient \<Rightarrow> float64 \<Rightarrow> string \<Rightarrow> string \<Rightarrow> string
     \<Rightarrow> PayPalDigitalGood list \<Rightarrow> PayPalResponse option \<times> 'e error option" where
  "SetExpressCheckoutDigitalGoods lib pClient paymentAmount currencyCode returnURL cancelURL goods =
     PerformRequest lib pClient
       (SetExpressCheckoutDigitalGoods_values paymentAmount currencyCode returnURL cancelURL goods)"

text \<open>The loop \<^verbatim>\<open>for i := 0; i < goodsCount; i++\<close> of \<^verbatim>\<open>SetExpressCheckout\<close>, from index \<open>i\<close>.\<close>

function goods_loop :: "PayPalGood list \<Rightarrow> nat \<Rightarrow> Values \<Rightarrow> Values" where
  "goods_loop goods i values =
     (if i < length goods then
        (let good = goods ! i;
             values = (if Id good \<noteq> [] then
                         Values_Add values (Sprintf_s_d ''L_PAYMENTREQUEST_0_NUMBER'' (int i)) (Id good)
                       else values);
             values = Values_Add values (Sprintf_s_d ''L_PAYMENTREQUEST_0_NAME'' (int i))
                        (PayPalGood.Name good);
             values = Values_Add values (Sprintf_s_d ''L_PAYMENTREQUEST_0_AMT'' (int i))
                        (Sprintf_2f (PayPalGood.Amount good));
             values = Values_Add values (Sprintf_s_d ''L_PAYMENTREQUEST_0_QTY'' (int i))
                        (Sprintf_d (PayPalGood.Quantity good))
         in goods_loop goods (i + 1) values)
      else values)"
  by pat_completeness auto
termination
  by (relation "measure (\<lambda>(goods, i, values). length goods - i)") auto

declare goods_loop.simps [simp del]

text \<open>The parameter set \<^verbatim>\<open>SetExpressCheckout\<close> hands to \<^verbatim>\<open>PerformRequest\<close>.\<close>

definition SetExpressCheckout_values :: "PayPalOrder \<Rightarrow> PayPalGood list \<Rightarrow> Values" where
  "SetExpressCheckout_values order goods =
     (let values = [];
          values = Values_Set values ''METHOD'' ''SetExpressCheckout'';
          values = Values_Add values ''PAYMENTREQUEST_0_ITEMAMT'' (Sprintf_2f (SubTotal order));
          values = Values_Add values ''PAYMENTREQUEST_0_SHIPPINGAMT'' (Sprintf_2f (Shipping order));
          values = Values_Add values ''PAYMENTREQUEST_0_AMT'' (Sprintf_2f (Total order));
          values = Values_Add values ''PAYMENTREQUEST_0_PAYMENTACTION'' ''Sale'';
          values = Values_Add values ''PAYMENTREQUEST_0_CURRENCYCODE'' (CurrencyCode order);
          values = Values_Add values ''RETURNURL'' (ReturnUrl order);
          values = Values_Add values ''CANCELURL'' (CancelUrl order);
          values = Values_Add values ''REQCONFIRMSHIPPING'' ''0'';
          values = Values_Add values ''NOSHIPPING'' ''1'';
          values = Values_Add values ''SOLUTIONTYPE'' ''Sole'';
          goodsCount = length goods;
          values = goods_loop goods 0 values
      in if gt_zero (Discount order) then
           (let values = Values_Add values (Sprintf_s_d ''L_PAYMENTREQUEST_0_NAME'' (int goodsCount))
                           ''DISCOUNT'';
                values = Values_Add values (Sprintf_s_d ''L_PAYMENTREQUEST_0_AMT'' (int goodsCount))
                           (Sprintf_2f (fneg (Discount order)));
                values = Values_Add values (Sprintf_s_d ''L_PAYMENTREQUEST_0_QTY'' (int goodsCount))
                           ''1''
            in values)
         else values)"

definition SetExpressCheckout ::
  "'e library \<Rightarrow> 'e PayPalClient \<Rightarrow> PayPalOrder \<Rightarrow> PayPalGood list
     \<Rightarrow> PayPalResponse option \<times> 'e error option" where
  "SetExpressCheckout lib pClient order goods =
     PerformRequest lib pClient (SetExpressCheckout_values order goods)"

text \<open>\<open>paymentType\<close> can be \<^verbatim>\<open>Sale\<close>, \<^verbatim>\<open>Authorization\<close> or \<^verbatim>\<open>Order\<close>; it is not checked.\<close>

definition DoExpressCheckoutPayment_values ::
  "string \<Rightarrow> string \<Rightarrow> string \<Rightarrow> string \<Rightarrow> float64 \<Rightarrow> Values" where
  "DoExpressCheckoutPayment_values token payerId paymentType currencyCode finalPaymentAmount =
     (let values = [];
          values = Values_Set values ''METHOD'' ''DoExpressCheckoutPayment'';
          values = Values_Add values ''TOKEN'' token;
          values = Values_Add values ''PAYERID'' payerId;
          values = Values_Add values ''PAYMENTREQUEST_0_PAYMENTACTION'' paymentType;
          values = Values_Add values ''PAYMENTREQUEST_0_CURRENCYCODE'' currencyCode;
          values = Values_Add values ''PAYMENTREQUEST_0_AMT'' (Sprintf_2f finalPaymentAmount)
      in values)"

definition DoExpressCheckoutPayment ::
  "'e library \<Rightarrow> 'e PayPalClient \<Rightarrow> string \<Rightarrow> string \<Rightarrow> string \<Rightarrow> string \<Rightarrow> float64
     \<Rightarrow> PayPalResponse option \<times> 'e error option" where
  "DoExpressCheckoutPayment lib pClient token payerId paymentType currencyCode finalPaymentAmount =
     PerformRequest lib pClient
       (DoExpressCheckoutPayment_values token payerId paymentType currencyCode finalPaymentAmount)"

text \<open>The convenience function for a sale (charge).\<close>

definition DoExpressCheckoutSale ::
  "'e library \<Rightarrow> 'e PayPalClient \<Rightarrow> string \<Rightarrow> string \<Rightarrow> string \<Rightarrow> float64
     \<Rightarrow> PayPalResponse option \<times> 'e error option" where
  "DoExpressCheckoutSale lib pClient token payerId currencyCode finalPaymentAmount =
     DoExpressCheckoutPayment lib pClient token payerId ''Sale'' currencyCode finalPaymentAmount"

definition GetExpressCheckoutDetails_values :: "string \<Rightarrow> Values" where
  "GetExpressCheckoutDetails_values token =
     (let values = [];
          values = Values_Add values ''TOKEN'' token;
          values = Values_Set values ''METHOD'' ''GetExpressCheckoutDetails''
      in values)"

definition GetExpressCheckoutDetails ::
  "'e library \<Rightarrow> 'e PayPalClient \<Rightarrow> string \<Rightarrow> PayPalResponse option \<times> 'e error option" where
  "GetExpressCheckoutDetails lib pClient token =
     PerformRequest lib pClient (GetExpressCheckoutDetails_values token)"

subsection \<open>Notions used to state the properties\<close>

text \<open>The last message of \<^verbatim>\<open>Error\<close>.\<close>

definition maintenance_message :: string where
  "maintenance_message =
     ''PayPal is undergoing maintenance.'' @ [CHR 0x0A] @ ''Please try again later.''"

text \<open>A parameter set seen as the fields it was given: adding the pairs of a list one
  after the other, and the values a list of pairs holds for a key, in order.\<close>

definition add_fields :: "Values \<Rightarrow> (string \<times> string) list \<Rightarrow> Values" where
  "add_fields v fs = foldl (\<lambda>v p. Values_Add v (fst p) (snd p)) v fs"

definition values_for :: "string \<Rightarrow> (string \<times> string) list \<Rightarrow> string list" where
  "values_for k fs = map snd (filter (\<lambda>p. fst p = k) fs)"

text \<open>The fields one round of each loop adds, in order.\<close>

definition good_fields :: "PayPalGood \<Rightarrow> nat \<Rightarrow> (string \<times> string) list" where
  "good_fields good i =
     (if Id good \<noteq> [] then [(Sprintf_s_d ''L_PAYMENTREQUEST_0_NUMBER'' (int i), Id good)] else [])
     @ [(Sprintf_s_d ''L_PAYMENTREQUEST_0_NAME'' (int i), PayPalGood.Name good),
        (Sprintf_s_d ''L_PAYMENTREQUEST_0_AMT'' (int i), Sprintf_2f (PayPalGood.Amount good)),
        (Sprintf_s_d ''L_PAYMENTREQUEST_0_QTY'' (int i), Sprintf_d (PayPalGood.Quantity good))]"

definition digital_good_fields :: "PayPalDigitalGood \<Rightarrow> nat \<Rightarrow> (string \<times> string) list" where
  "digital_good_fields good i =
     [(Sprintf_s_d ''L_PAYMENTREQUEST_0_NAME'' (int i), PayPalDigitalGood.Name good),
      (Sprintf_s_d ''L_PAYMENTREQUEST_0_AMT'' (int i), Sprintf_2f (PayPalDigitalGood.Amount good)),
      (Sprintf_s_d ''L_PAYMENTREQUEST_0_QTY'' (int i), Sprintf_d (PayPalDigitalGood.Quantity good)),
      (Sprintf_s_d ''L_PAYMENTREQUEST_0_ITEMCATEGORY'' (int i), ''Digital'')]"

text \<open>
  A text with exactly two decimal digits: an optional minus sign, one digit or more, a
  point, two digits; and the number such a text denotes.
\<close>

definition unsigned_part :: "string \<Rightarrow> string" where
  "unsigned_part s = (if s \<noteq> [] \<and> hd s = CHR ''-'' then tl s else s)"

definition two_decimals :: "string \<Rightarrow> bool" where
  "two_decimals s =
     (let t = unsigned_part s; n = length t
      in 4 \<le> n \<and> list_all is_digit (take (n - 3) t) \<and> t ! (n - 3) = CHR ''.''
         \<and> is_digit (t ! (n - 2)) \<and> is_digit (t ! (n - 1)))"

definition decimal_value :: "string \<Rightarrow> rat" where
  "decimal_value s =
     (let t = unsigned_part s; n = length t;
          v = of_nat (atoi (take (n - 3) t)) + of_nat (atoi (drop (n - 2) t)) / 100
      in if s \<noteq> [] \<and> hd s = CHR ''-'' then - v else v)"

text \<open>The Go comparison \<^verbatim>\<open><= 0\<close> on float64.\<close>

definition le_zero :: "float64 \<Rightarrow> bool" where
  "le_zero a = (case a of Finite x \<Rightarrow> x \<le> 0 | NegZero \<Rightarrow> True | NegInf \<Rightarrow> True | _ \<Rightarrow> False)"

text \<open>The digits of a number of hundredths: the integer digits, a point, two digits.\<close>

definition fixed2 :: "nat \<Rightarrow> string" where
  "fixed2 h = itoa (h div 100) @ ''.'' @ [digit (h mod 100 div 10), digit (h mod 10)]"

text \<open>
  Exact arithmetic for the sum: a rational is exact when rounding leaves it as it is, a list
  of goods is summed without rounding from \<open>s\<close> when every amount is finite and every
  converted quantity, product and partial sum is exact; and the sum of the products in the
  rationals.
\<close>

definition exact64 :: "rat \<Rightarrow> bool" where
  "exact64 x = (round64 x = Finite x)"

fun no_rounding :: "rat \<Rightarrow> PayPalDigitalGood list \<Rightarrow> bool" where
  "no_rounding s [] = True"
| "no_rounding s (dg # goods) =
     (is_finite (PayPalDigitalGood.Amount dg)
      \<and> exact64 (of_int (PayPalDigitalGood.Quantity dg))
      \<and> exact64 (value_of (PayPalDigitalGood.Amount dg) * of_int (PayPalDigitalGood.Quantity dg))
      \<and> exact64 (s + value_of (PayPalDigitalGood.Amount dg) * of_int (PayPalDigitalGood.Quantity dg))
      \<and> no_rounding (s + value_of (PayPalDigitalGood.Amount dg) * of_int (PayPalDigitalGood.Quantity dg)) goods)"

definition exact_total :: "PayPalDigitalGood list \<Rightarrow> rat" where
  "exact_total goods =
     sum_list (map (\<lambda>dg. value_of (PayPalDigitalGood.Amount dg) * of_int (PayPalDigitalGood.Quantity dg)) goods)"

section \<open>Auxiliary facts\<close>

subsection \<open>Parameter sets\<close>

lemma Values_index_Add:
  "Values_index (Values_Add v k x) k' =
     (if k' = k then Values_index v k @ [x] else Values_index v k')"
  by (simp add: Values_index_def Values_Add_def update_conv')

lemma Values_index_Set:
  "Values_index (Values_Set v k x) k' = (if k' = k then [x] else Values_index v k')"
  by (simp add: Values_index_def Values_Set_def update_conv')

lemma Values_index_Nil: "Values_index [] k = []"
  by (simp add: Values_index_def)

lemma Values_Get_absent: "Values_index v k = [] \<Longrightarrow> Values_Get v k = []"
  by (simp add: Values_Get_def)

text \<open>\<^verbatim>\<open>PerformRequest\<close> posts the parameter set it is given with four fields added; every
  other key is as the builder left it.\<close>

lemma request_values_other_keys:
  "k \<notin> {''USER'', ''PWD'', ''SIGNATURE'', ''VERSION''} \<Longrightarrow>
     Values_index (request_values pClient values) k = Values_index values k"
  by (simp add: request_values_def Let_def Values_index_Add)

subsection \<open>Lower-casing and escaping of the literals that occur\<close>

lemma ToLower_Success: "ToLower u ''Success'' = ''success''"
  by code_simp

lemma ToLower_Failure: "ToLower u ''Failure'' = ''failure''"
  by code_simp

lemma sort_cmd_token: "sort [''cmd'', ''token''] = [''cmd'', ''token'']"
  by code_simp

lemma QueryEscape_cmd: "QueryEscape ''cmd'' = ''cmd''"
  by code_simp

lemma QueryEscape_token: "QueryEscape ''token'' = ''token''"
  by code_simp

lemma QueryEscape_express: "QueryEscape ''_express-checkout'' = ''_express-checkout''"
  by code_simp

lemma QueryEscape_unreserved: "list_all unreserved s \<Longrightarrow> QueryEscape s = s"
  by (induction s) (simp_all add: QueryEscape_def escape_byte_def)

lemma Encode_query:
  "Values_Encode (Values_Add (Values_Set [] ''cmd'' ''_express-checkout'') ''token'' t)
     = ''cmd=_express-checkout&token='' @ QueryEscape t"
  by (simp add: Values_Encode_def Values_Add_def Values_Set_def Values_index_def
      sort_cmd_token QueryEscape_cmd QueryEscape_token QueryEscape_express)

lemma CheckoutUrl_eq:
  "CheckoutUrl r =
     (if usedSandbox r then CHECKOUT_SANDBOX_URL else CHECKOUT_PRODUCTION_URL)
     @ ''?'' @ ''cmd=_express-checkout&token='' @ QueryEscape (Token r)"
  by (simp add: CheckoutUrl_def Let_def Encode_query)

subsection \<open>The sum loop\<close>

lemma sum_range_foldl:
  "sum_range s goods =
     foldl fadd s (map (\<lambda>dg. fmul (PayPalDigitalGood.Amount dg)
                                  (float64_of_int (PayPalDigitalGood.Quantity dg))) goods)"
  by (induction goods arbitrary: s) simp_all

lemma fmul_10_2: "fmul (Finite 10) (float64_of_int 2) = Finite 20"
  by code_simp

lemma fmul_5_1: "fmul (Finite 5) (float64_of_int 1) = Finite 5"
  by code_simp

lemma fadd_0_20: "fadd (Finite 0) (Finite 20) = Finite 20"
  by code_simp

lemma fadd_20_5: "fadd (Finite 20) (Finite 5) = Finite 25"
  by code_simp

lemma fmul_exact:
  assumes "is_finite a" "exact64 (value_of a * q)"
  shows "is_finite (fmul a (Finite q)) \<and> value_of (fmul a (Finite q)) = value_of a * q"
proof (cases a)
  case (Finite x)
  with assms show ?thesis
    by (auto simp add: fmul_def is_inf_def is_zero_def is_neg_def is_finite_def value_of_def exact64_def)
next
  case NegZero
  then show ?thesis
    by (auto simp add: fmul_def is_inf_def is_zero_def is_neg_def is_finite_def value_of_def)
qed (use assms in \<open>simp_all add: is_finite_def\<close>)

lemma fadd_exact:
  assumes "is_finite p" "exact64 (s + value_of p)"
  shows "fadd (Finite s) p = Finite (s + value_of p)"
  using assms
  by (cases p) (simp_all add: fadd_def is_inf_def is_finite_def value_of_def exact64_def)

lemma sum_range_exact:
  "no_rounding s goods \<Longrightarrow> sum_range (Finite s) goods = Finite (s + exact_total goods)"
proof (induction goods arbitrary: s)
  case Nil
  then show ?case by (simp add: exact_total_def)
next
  case (Cons dg goods)
  let ?a = "PayPalDigitalGood.Amount dg"
  let ?q = "rat_of_int (PayPalDigitalGood.Quantity dg)"
  from Cons.prems have fin: "is_finite ?a" and eq: "exact64 ?q"
    and ep: "exact64 (value_of ?a * ?q)" and es: "exact64 (s + value_of ?a * ?q)"
    and rest: "no_rounding (s + value_of ?a * ?q) goods"
    by simp_all
  have conv: "float64_of_int (PayPalDigitalGood.Quantity dg) = Finite ?q"
    using eq by (simp add: float64_of_int_def exact64_def)
  have prod: "is_finite (fmul ?a (Finite ?q)) \<and> value_of (fmul ?a (Finite ?q)) = value_of ?a * ?q"
    using fin ep by (rule fmul_exact)
  have step: "fadd (Finite s) (fmul ?a (Finite ?q)) = Finite (s + value_of ?a * ?q)"
    using fadd_exact[of "fmul ?a (Finite ?q)" s] prod es by simp
  show ?case
    using Cons.IH[OF rest] by (simp add: conv step exact_total_def add.assoc)
qed

lemma round64_examples:
  "round64 1 = Finite 1" "round64 2 = Finite 2" "round64 5 = Finite 5"
  "round64 20 = Finite 20" "round64 25 = Finite 25"
  by code_simp+

lemma exact64_examples: "exact64 1" "exact64 2" "exact64 5" "exact64 20" "exact64 25"
  by (simp_all add: exact64_def round64_examples)

lemma no_rounding_example:
  "no_rounding 0
     [\<lparr>PayPalDigitalGood.Name = n1, Amount = Finite 10, Quantity = 2\<rparr>,
      \<lparr>PayPalDigitalGood.Name = n2, Amount = Finite 5, Quantity = 1\<rparr>]"
  by (simp add: is_finite_def value_of_def exact64_examples)

subsection \<open>Decimal digits\<close>

lemma digit_cases: "d < 10 \<Longrightarrow> d = 0 \<or> d = 1 \<or> d = 2 \<or> d = 3 \<or> d = 4 \<or> d = 5 \<or> d = 6 \<or> d = 7 \<or> d = 8 \<or> d = (9::nat)"
  by arith

lemma digit_val_digit: "d < 10 \<Longrightarrow> digit_val (digit d) = d"
  using digit_cases[of d] by (auto simp add: digit_val_def digit_def)

lemma is_digit_digit: "is_digit (digit d)"
  using digit_cases[of "d mod 10"] by (auto simp add: is_digit_def digit_def)

lemma digit_not_minus: "digit d \<noteq> CHR ''-''"
  using digit_cases[of "d mod 10"] by (auto simp add: digit_def)

lemma atoi_snoc: "atoi (s @ [c]) = 10 * atoi s + digit_val c"
  by (simp add: atoi_def)

lemma atoi_itoa: "atoi (itoa n) = n"
proof (induction n rule: itoa.induct)
  case (1 n)
  show ?case
  proof (cases "n < 10")
    case True
    then show ?thesis
      by (simp add: itoa.simps[of n] atoi_def digit_val_digit)
  next
    case False
    with 1 have "atoi (itoa (n div 10)) = n div 10" by simp
    with False show ?thesis
      by (simp add: itoa.simps[of n] atoi_snoc digit_val_digit)
  qed
qed

lemma itoa_inj: "itoa m = itoa n \<longleftrightarrow> m = n"
  by (metis atoi_itoa)

lemma itoa_digits: "list_all is_digit (itoa n)"
  by (induction n rule: itoa.induct) (subst itoa.simps, simp add: is_digit_digit)

lemma itoa_nonempty: "itoa n \<noteq> []"
  by (subst itoa.simps) simp

lemma hd_itoa_not_minus: "hd (itoa n) \<noteq> CHR ''-''"
  using itoa_digits[of n] itoa_nonempty[of n]
  by (cases "itoa n") (auto simp add: is_digit_def)

lemma Sprintf_d_int: "Sprintf_d (int i) = itoa i"
  by (simp add: Sprintf_d_def)

lemma Sprintf_s_d_int: "Sprintf_s_d p (int i) = p @ itoa i"
  by (simp add: Sprintf_s_d_def Sprintf_d_int)

lemma values_for_Nil: "values_for k [] = []"
  by (simp add: values_for_def)

lemma values_for_Cons:
  "values_for k (p # fs) = (if fst p = k then snd p # values_for k fs else values_for k fs)"
  by (simp add: values_for_def)

lemma values_for_append: "values_for k (fs @ gs) = values_for k fs @ values_for k gs"
  by (simp add: values_for_def)

lemma values_for_concat:
  "values_for k (concat (map f js)) = concat (map (\<lambda>j. values_for k (f j)) js)"
  by (induction js) (simp_all add: values_for_Nil values_for_append)

lemma concat_upt_single:
  assumes "\<And>j'. j' \<noteq> j \<Longrightarrow> g j' = []"
  shows "concat (map g [0..<n]) = (if j < n then g j else [])"
proof (induction n)
  case 0
  show ?case by simp
next
  case (Suc n)
  show ?case
  proof (cases "n = j")
    case True
    then show ?thesis using Suc by simp
  next
    case False
    then have "g n = []" using assms by simp
    with False Suc show ?thesis by (auto simp add: less_Suc_eq)
  qed
qed

lemma add_fields_Nil: "add_fields v [] = v"
  by (simp add: add_fields_def)

lemma add_fields_Cons: "add_fields v (p # fs) = add_fields (Values_Add v (fst p) (snd p)) fs"
  by (simp add: add_fields_def)

lemma add_fields_append: "add_fields v (fs @ gs) = add_fields (add_fields v fs) gs"
  by (simp add: add_fields_def)

lemma Values_index_add_fields:
  "Values_index (add_fields v fs) k = Values_index v k @ values_for k fs"
  by (induction fs arbitrary: v)
     (simp_all add: add_fields_Nil add_fields_Cons values_for_Nil values_for_Cons Values_index_Add)

lemma goods_loop_fields:
  "goods_loop goods i v =
     add_fields v (concat (map (\<lambda>j. good_fields (goods ! j) j) [i..<length goods]))"
proof (induction goods i v rule: goods_loop.induct)
  case (1 goods i v)
  show ?case
  proof (cases "i < length goods")
    case True
    then show ?thesis
      using 1[OF True refl refl refl refl]
      by (subst goods_loop.simps)
         (simp add: Let_def upt_conv_Cons good_fields_def add_fields_Cons add_fields_append add_fields_Nil)
  next
    case False
    then show ?thesis
      by (subst goods_loop.simps) (simp add: add_fields_Nil)
  qed
qed

lemma digital_goods_loop_fields:
  "digital_goods_loop goods i v =
     add_fields v (concat (map (\<lambda>j. digital_good_fields (goods ! j) j) [i..<length goods]))"
proof (induction goods i v rule: digital_goods_loop.induct)
  case (1 goods i v)
  show ?case
  proof (cases "i < length goods")
    case True
    then show ?thesis
      using 1[OF True refl refl refl refl refl]
      by (subst digital_goods_loop.simps)
         (simp add: Let_def upt_conv_Cons digital_good_fields_def add_fields_Cons add_fields_append add_fields_Nil)
  next
    case False
    then show ?thesis
      by (subst digital_goods_loop.simps) (simp add: add_fields_Nil)
  qed
qed

subsection \<open>Rounding to hundredths and the two-decimal text\<close>

lemma rhe_neg: "round_half_even (- y) = - round_half_even y"
proof (cases "y = of_int \<lfloor>y\<rfloor>")
  case True
  then obtain k where k: "y = of_int k" ..
  have "- y = of_int (- k)" using k by simp
  then have "round_half_even (- y) = - k"
    unfolding round_half_even_def Let_def by (simp only: floor_of_int) simp
  moreover have "round_half_even y = k"
    unfolding round_half_even_def Let_def k by simp
  ultimately show ?thesis by simp
next
  case False
  then have fl: "\<lfloor>- y\<rfloor> = - \<lfloor>y\<rfloor> - 1"
    by (simp add: floor_minus ceiling_altdef)
  have d0: "0 < y - of_int \<lfloor>y\<rfloor>" using False
    by (metis diff_gt_0_iff_gt of_int_floor_le order_le_less)
  show ?thesis
    unfolding round_half_even_def Let_def fl
    using d0 by (auto simp add: algebra_simps)
qed

lemma rhe_near: "\<bar>of_int (round_half_even y) - y\<bar> \<le> 1 / 2"
proof -
  have "of_int \<lfloor>y\<rfloor> \<le> y" "y < of_int \<lfloor>y\<rfloor> + 1" by linarith+
  then show ?thesis
    unfolding round_half_even_def Let_def by (auto simp add: abs_le_iff) 
qed

lemma rhe_nonneg: "0 \<le> y \<Longrightarrow> 0 \<le> round_half_even y"
  unfolding round_half_even_def Let_def by (auto simp add: add_nonneg_nonneg) 

lemma rhe_abs: "round_half_even \<bar>y\<bar> = \<bar>round_half_even y\<bar>"
proof (cases "0 \<le> y")
  case True
  then show ?thesis using rhe_nonneg[of y] by simp
next
  case False
  then have "0 \<le> - y" by simp
  then have "0 \<le> round_half_even (- y)" by (rule rhe_nonneg)
  with False show ?thesis by (simp add: rhe_neg abs_if)
qed

lemma hundredths_eq: "int (hundredths x) = \<bar>round_half_even (x * 100)\<bar>"
proof -
  have "round_half_even (\<bar>x\<bar> * 100) = \<bar>round_half_even (x * 100)\<bar>"
    using rhe_abs[of "x * 100"] by (simp add: abs_mult)
  then show ?thesis by (simp add: hundredths_def)
qed

lemma rhe_sign: "x < 0 \<Longrightarrow> round_half_even (x * 100) \<le> 0"
  using rhe_nonneg[of "- (x * 100)"] by (simp add: rhe_neg)

lemma rhe_sign': "0 \<le> x \<Longrightarrow> 0 \<le> round_half_even (x * 100)"
  by (rule rhe_nonneg) simp

lemma unsigned_part_minus: "unsigned_part (CHR ''-'' # fixed2 h) = fixed2 h"
  by (simp add: unsigned_part_def)

lemma unsigned_part_fixed2: "unsigned_part (fixed2 h) = fixed2 h"
  using hd_itoa_not_minus[of "h div 100"] itoa_nonempty[of "h div 100"]
  by (simp add: unsigned_part_def fixed2_def hd_append)

lemma two_atoi: "atoi [digit (h mod 100 div 10), digit (h mod 10)] = h mod 100"
proof -
  have "h mod 100 div 10 < 10" by (simp add: less_mult_imp_div_less)
  moreover have "h mod 10 < 10" by simp
  moreover have "10 * (h mod 100 div 10) + h mod 10 = h mod 100"
  proof -
    have "h mod 10 = h mod 100 mod 10" by (simp add: mod_mod_cancel)
    then show ?thesis by simp
  qed
  ultimately show ?thesis
    by (simp add: atoi_def digit_val_digit)
qed

lemma snoc3_shape:
  "take (length (l @ [a, b, c]) - 3) (l @ [a, b, c]) = l"
  "(l @ [a, b, c]) ! (length (l @ [a, b, c]) - 3) = a"
  "(l @ [a, b, c]) ! (length (l @ [a, b, c]) - 2) = b"
  "(l @ [a, b, c]) ! (length (l @ [a, b, c]) - 1) = c"
  "drop (length (l @ [a, b, c]) - 2) (l @ [a, b, c]) = [b, c]"
  by (simp_all add: nth_append)

lemma fixed2_shape:
  "4 \<le> length (fixed2 h)"
  "take (length (fixed2 h) - 3) (fixed2 h) = itoa (h div 100)"
  "fixed2 h ! (length (fixed2 h) - 3) = CHR ''.''"
  "fixed2 h ! (length (fixed2 h) - 2) = digit (h mod 100 div 10)"
  "fixed2 h ! (length (fixed2 h) - 1) = digit (h mod 10)"
  "drop (length (fixed2 h) - 2) (fixed2 h) = [digit (h mod 100 div 10), digit (h mod 10)]"
  using itoa_nonempty[of "h div 100"] snoc3_shape[of "itoa (h div 100)" "CHR ''.''" "digit (h mod 100 div 10)" "digit (h mod 10)"]
  by (simp_all add: fixed2_def Suc_le_eq)

lemma two_decimals_fixed2: "two_decimals (fixed2 h)" "two_decimals (CHR ''-'' # fixed2 h)"
  by (simp_all only: two_decimals_def Let_def unsigned_part_minus unsigned_part_fixed2 fixed2_shape
      itoa_digits is_digit_digit simp_thms)


lemma value_fixed2: "of_nat (atoi (itoa (h div 100))) + of_nat (h mod 100) / 100 = (of_nat h / 100 :: rat)"
proof -
  have "h = 100 * (h div 100) + h mod 100" by simp
  then have "(of_nat h :: rat) = 100 * of_nat (h div 100) + of_nat (h mod 100)"
    by (metis of_nat_add of_nat_mult of_nat_numeral)
  then show ?thesis by (simp add: atoi_itoa field_simps)
qed


lemma decimal_value_fixed2: "decimal_value (fixed2 h) = of_nat h / 100"
proof -
  have "\<not> (fixed2 h \<noteq> [] \<and> hd (fixed2 h) = CHR ''-'')"
    using hd_itoa_not_minus[of "h div 100"] itoa_nonempty[of "h div 100"]
    by (simp add: fixed2_def hd_append)
  then show ?thesis
    by (simp only: decimal_value_def Let_def unsigned_part_fixed2 fixed2_shape two_atoi value_fixed2 if_False)
qed


lemma decimal_value_minus_fixed2: "decimal_value (CHR ''-'' # fixed2 h) = - (of_nat h / 100)"
proof -
  have "(CHR ''-'' # fixed2 h \<noteq> [] \<and> hd (CHR ''-'' # fixed2 h) = CHR ''-'') = True"
    by simp
  then show ?thesis
    by (simp only: decimal_value_def Let_def unsigned_part_minus fixed2_shape two_atoi value_fixed2 if_True)
qed


lemma Sprintf_2f_Finite:
  "Sprintf_2f (Finite x) = (if x < 0 then ''-'' @ fixed2 (hundredths x) else fixed2 (hundredths x))"
  by (simp add: Sprintf_2f_def fixed2_def)


lemma Sprintf_2f_two_decimals: "is_finite a \<Longrightarrow> two_decimals (Sprintf_2f a)"
proof (cases a)
  case (Finite x)
  then show ?thesis by (simp add: Sprintf_2f_Finite two_decimals_fixed2)
next
  case NegZero
  have "two_decimals ''-0.00''" by code_simp
  with NegZero show ?thesis by (simp add: Sprintf_2f_def)
qed (simp_all add: is_finite_def)


lemma Sprintf_2f_value:
  "is_finite a \<Longrightarrow> decimal_value (Sprintf_2f a) * 100 = of_int (round_half_even (value_of a * 100))"
proof (cases a)
  case (Finite x)
  have h: "(of_nat (hundredths x) :: rat) = of_int \<bar>round_half_even (x * 100)\<bar>"
  proof -
    have "(of_nat (hundredths x) :: rat) = of_int (int (hundredths x))" by simp
    then show ?thesis by (simp only: hundredths_eq)
  qed
  show ?thesis
  proof (cases "x < 0")
    case True
    then show ?thesis
      using rhe_sign[of x] Finite
      by (simp add: Sprintf_2f_Finite decimal_value_minus_fixed2 h value_of_def)
  next
    case False
    then show ?thesis
      using rhe_sign'[of x] Finite
      by (simp add: Sprintf_2f_Finite decimal_value_fixed2 h value_of_def)
  qed
next
  case NegZero
  have "decimal_value ''-0.00'' = 0" by code_simp
  moreover have "round_half_even 0 = 0" by (simp add: round_half_even_def)
  ultimately show ?thesis using NegZero by (simp add: Sprintf_2f_def value_of_def)
qed (simp_all add: is_finite_def)


lemma scale_100:
  assumes "\<bar>d * 100 - v * 100\<bar> \<le> 1 / 2"
  shows "\<bar>d - v\<bar> \<le> 1 / (200::rat)"
proof -
  have "\<bar>d * 100 - v * 100\<bar> = \<bar>(d - v) * 100\<bar>"
    by (simp add: left_diff_distrib)
  also have "\<dots> = \<bar>d - v\<bar> * \<bar>100\<bar>"
    by (rule abs_mult)
  also have "\<dots> = \<bar>d - v\<bar> * 100"
    by simp
  finally show ?thesis
    using assms by linarith
qed

lemma Sprintf_2f_near:
  assumes "is_finite a"
  shows "\<bar>decimal_value (Sprintf_2f a) - value_of a\<bar> \<le> 1 / 200"
proof -
  have "\<bar>of_int (round_half_even (value_of a * 100)) - value_of a * 100\<bar> \<le> 1 / 2"
    by (rule rhe_near)
  then have "\<bar>decimal_value (Sprintf_2f a) * 100 - value_of a * 100\<bar> \<le> 1 / 2"
    by (simp only: Sprintf_2f_value[OF assms])
  then show ?thesis
    by (rule scale_100)
qed

subsection \<open>The fields of the request builders\<close>

lemma Values_Set_Nil: "Values_Set [] k x = Values_Add [] k x"
  by (simp add: Values_Set_def Values_Add_def Values_index_def)


lemma SetExpressCheckout_values_fields:
  "SetExpressCheckout_values order goods =
     add_fields []
       ([(''METHOD'', ''SetExpressCheckout''),
         (''PAYMENTREQUEST_0_ITEMAMT'', Sprintf_2f (SubTotal order)),
         (''PAYMENTREQUEST_0_SHIPPINGAMT'', Sprintf_2f (Shipping order)),
         (''PAYMENTREQUEST_0_AMT'', Sprintf_2f (Total order)),
         (''PAYMENTREQUEST_0_PAYMENTACTION'', ''Sale''),
         (''PAYMENTREQUEST_0_CURRENCYCODE'', CurrencyCode order),
         (''RETURNURL'', ReturnUrl order),
         (''CANCELURL'', CancelUrl order),
         (''REQCONFIRMSHIPPING'', ''0''),
         (''NOSHIPPING'', ''1''),
         (''SOLUTIONTYPE'', ''Sole'')]
        @ concat (map (\<lambda>j. good_fields (goods ! j) j) [0..<length goods])
        @ (if gt_zero (Discount order) then
             [(Sprintf_s_d ''L_PAYMENTREQUEST_0_NAME'' (int (length goods)), ''DISCOUNT''),
              (Sprintf_s_d ''L_PAYMENTREQUEST_0_AMT'' (int (length goods)), Sprintf_2f (fneg (Discount order))),
              (Sprintf_s_d ''L_PAYMENTREQUEST_0_QTY'' (int (length goods)), ''1'')]
           else []))"
  by (simp add: SetExpressCheckout_values_def Let_def goods_loop_fields Values_Set_Nil
      add_fields_append add_fields_Cons add_fields_Nil)


lemma SetExpressCheckoutDigitalGoods_values_fields:
  "SetExpressCheckoutDigitalGoods_values paymentAmount currencyCode returnURL cancelURL goods =
     add_fields []
       ([(''METHOD'', ''SetExpressCheckout''),
         (''PAYMENTREQUEST_0_AMT'', Sprintf_2f paymentAmount),
         (''PAYMENTREQUEST_0_PAYMENTACTION'', ''Sale''),
         (''PAYMENTREQUEST_0_CURRENCYCODE'', currencyCode),
         (''RETURNURL'', returnURL),
         (''CANCELURL'', cancelURL),
         (''REQCONFIRMSHIPPING'', ''0''),
         (''NOSHIPPING'', ''1''),
         (''SOLUTIONTYPE'', ''Sole'')]
        @ concat (map (\<lambda>j. digital_good_fields (goods ! j) j) [0..<length goods]))"
  by (simp add: SetExpressCheckoutDigitalGoods_values_def Let_def digital_goods_loop_fields
      Values_Set_Nil add_fields_append add_fields_Cons add_fields_Nil)


lemma DoExpressCheckoutPayment_values_fields:
  "DoExpressCheckoutPayment_values token payerId paymentType currencyCode finalPaymentAmount =
     add_fields []
       [(''METHOD'', ''DoExpressCheckoutPayment''),
        (''TOKEN'', token),
        (''PAYERID'', payerId),
        (''PAYMENTREQUEST_0_PAYMENTACTION'', paymentType),
        (''PAYMENTREQUEST_0_CURRENCYCODE'', currencyCode),
        (''PAYMENTREQUEST_0_AMT'', Sprintf_2f finalPaymentAmount)]"
  by (simp add: DoExpressCheckoutPayment_values_def Let_def Values_Set_Nil
      add_fields_Cons add_fields_Nil)

text \<open>The values one round of a loop holds for an indexed key.\<close>


lemma values_for_nonempty: "values_for k fs \<noteq> [] \<longleftrightarrow> k \<in> fst ` set fs"
  by (induction fs) (auto simp add: values_for_def)

lemma values_for_absent: "k \<notin> fst ` set fs \<Longrightarrow> values_for k fs = []"
  using values_for_nonempty[of k fs] by blast

text \<open>The indexed keys: equal only for the same prefix and index, and none is a fixed key.\<close>

lemma key_eq: "Sprintf_s_d p (int i) = Sprintf_s_d p (int j) \<longleftrightarrow> i = j"
  by (simp add: Sprintf_s_d_int itoa_inj)

lemma key_neq:
  "Sprintf_s_d ''L_PAYMENTREQUEST_0_NUMBER'' (int i) \<noteq> Sprintf_s_d ''L_PAYMENTREQUEST_0_NAME'' (int j)"
  "Sprintf_s_d ''L_PAYMENTREQUEST_0_NUMBER'' (int i) \<noteq> Sprintf_s_d ''L_PAYMENTREQUEST_0_AMT'' (int j)"
  "Sprintf_s_d ''L_PAYMENTREQUEST_0_NUMBER'' (int i) \<noteq> Sprintf_s_d ''L_PAYMENTREQUEST_0_QTY'' (int j)"
  "Sprintf_s_d ''L_PAYMENTREQUEST_0_NAME'' (int i) \<noteq> Sprintf_s_d ''L_PAYMENTREQUEST_0_NUMBER'' (int j)"
  "Sprintf_s_d ''L_PAYMENTREQUEST_0_NAME'' (int i) \<noteq> Sprintf_s_d ''L_PAYMENTREQUEST_0_AMT'' (int j)"
  "Sprintf_s_d ''L_PAYMENTREQUEST_0_NAME'' (int i) \<noteq> Sprintf_s_d ''L_PAYMENTREQUEST_0_QTY'' (int j)"
  "Sprintf_s_d ''L_PAYMENTREQUEST_0_NAME'' (int i) \<noteq> Sprintf_s_d ''L_PAYMENTREQUEST_0_ITEMCATEGORY'' (int j)"
  "Sprintf_s_d ''L_PAYMENTREQUEST_0_AMT'' (int i) \<noteq> Sprintf_s_d ''L_PAYMENTREQUEST_0_NUMBER'' (int j)"
  "Sprintf_s_d ''L_PAYMENTREQUEST_0_AMT'' (int i) \<noteq> Sprintf_s_d ''L_PAYMENTREQUEST_0_NAME'' (int j)"
  "Sprintf_s_d ''L_PAYMENTREQUEST_0_AMT'' (int i) \<noteq> Sprintf_s_d ''L_PAYMENTREQUEST_0_QTY'' (int j)"
  "Sprintf_s_d ''L_PAYMENTREQUEST_0_AMT'' (int i) \<noteq> Sprintf_s_d ''L_PAYMENTREQUEST_0_ITEMCATEGORY'' (int j)"
  "Sprintf_s_d ''L_PAYMENTREQUEST_0_QTY'' (int i) \<noteq> Sprintf_s_d ''L_PAYMENTREQUEST_0_NUMBER'' (int j)"
  "Sprintf_s_d ''L_PAYMENTREQUEST_0_QTY'' (int i) \<noteq> Sprintf_s_d ''L_PAYMENTREQUEST_0_NAME'' (int j)"
  "Sprintf_s_d ''L_PAYMENTREQUEST_0_QTY'' (int i) \<noteq> Sprintf_s_d ''L_PAYMENTREQUEST_0_AMT'' (int j)"
  "Sprintf_s_d ''L_PAYMENTREQUEST_0_QTY'' (int i) \<noteq> Sprintf_s_d ''L_PAYMENTREQUEST_0_ITEMCATEGORY'' (int j)"
  "Sprintf_s_d ''L_PAYMENTREQUEST_0_ITEMCATEGORY'' (int i) \<noteq> Sprintf_s_d ''L_PAYMENTREQUEST_0_NAME'' (int j)"
  "Sprintf_s_d ''L_PAYMENTREQUEST_0_ITEMCATEGORY'' (int i) \<noteq> Sprintf_s_d ''L_PAYMENTREQUEST_0_AMT'' (int j)"
  "Sprintf_s_d ''L_PAYMENTREQUEST_0_ITEMCATEGORY'' (int i) \<noteq> Sprintf_s_d ''L_PAYMENTREQUEST_0_QTY'' (int j)"
  by (simp_all add: Sprintf_s_d_int)

lemma key_not_fixed:
  "''METHOD'' \<noteq> Sprintf_s_d (CHR ''L'' # p) i"
  "''PAYMENTREQUEST_0_ITEMAMT'' \<noteq> Sprintf_s_d (CHR ''L'' # p) i"
  "''PAYMENTREQUEST_0_SHIPPINGAMT'' \<noteq> Sprintf_s_d (CHR ''L'' # p) i"
  "''PAYMENTREQUEST_0_AMT'' \<noteq> Sprintf_s_d (CHR ''L'' # p) i"
  "''PAYMENTREQUEST_0_PAYMENTACTION'' \<noteq> Sprintf_s_d (CHR ''L'' # p) i"
  "''PAYMENTREQUEST_0_CURRENCYCODE'' \<noteq> Sprintf_s_d (CHR ''L'' # p) i"
  "''RETURNURL'' \<noteq> Sprintf_s_d (CHR ''L'' # p) i"
  "''CANCELURL'' \<noteq> Sprintf_s_d (CHR ''L'' # p) i"
  "''REQCONFIRMSHIPPING'' \<noteq> Sprintf_s_d (CHR ''L'' # p) i"
  "''NOSHIPPING'' \<noteq> Sprintf_s_d (CHR ''L'' # p) i"
  "''SOLUTIONTYPE'' \<noteq> Sprintf_s_d (CHR ''L'' # p) i"
  by (simp_all add: Sprintf_s_d_def)

lemma key_not_fixed':
  "Sprintf_s_d (CHR ''L'' # p) i \<noteq> ''PAYMENTREQUEST_0_ITEMAMT''"
  "Sprintf_s_d (CHR ''L'' # p) i \<noteq> ''PAYMENTREQUEST_0_SHIPPINGAMT''"
  "Sprintf_s_d (CHR ''L'' # p) i \<noteq> ''PAYMENTREQUEST_0_AMT''"
  by (simp_all add: Sprintf_s_d_def)

lemmas field_facts =
  values_for_Cons values_for_Nil values_for_append key_eq key_neq key_not_fixed key_not_fixed'

text \<open>The values one round of a loop holds for an indexed key.\<close>

lemma good_fields_NAME:
  "values_for (Sprintf_s_d ''L_PAYMENTREQUEST_0_NAME'' (int j)) (good_fields g j') =
     (if j' = j then [PayPalGood.Name g] else [])"
  by (simp add: good_fields_def field_facts)

lemma good_fields_AMT:
  "values_for (Sprintf_s_d ''L_PAYMENTREQUEST_0_AMT'' (int j)) (good_fields g j') =
     (if j' = j then [Sprintf_2f (PayPalGood.Amount g)] else [])"
  by (simp add: good_fields_def field_facts)

lemma good_fields_QTY:
  "values_for (Sprintf_s_d ''L_PAYMENTREQUEST_0_QTY'' (int j)) (good_fields g j') =
     (if j' = j then [Sprintf_d (PayPalGood.Quantity g)] else [])"
  by (simp add: good_fields_def field_facts)

lemma good_fields_NUMBER:
  "values_for (Sprintf_s_d ''L_PAYMENTREQUEST_0_NUMBER'' (int j)) (good_fields g j') =
     (if j' = j then (if Id g \<noteq> [] then [Id g] else []) else [])"
  by (simp add: good_fields_def field_facts)

lemma good_fields_keys:
  "fst ` set (good_fields g j) =
     (if Id g \<noteq> [] then {Sprintf_s_d ''L_PAYMENTREQUEST_0_NUMBER'' (int j)} else {})
     \<union> {Sprintf_s_d ''L_PAYMENTREQUEST_0_NAME'' (int j),
         Sprintf_s_d ''L_PAYMENTREQUEST_0_AMT'' (int j),
         Sprintf_s_d ''L_PAYMENTREQUEST_0_QTY'' (int j)}"
  by (simp add: good_fields_def)

lemma good_fields_fixed:
  "values_for ''PAYMENTREQUEST_0_AMT'' (good_fields g j) = []"
  "values_for ''PAYMENTREQUEST_0_ITEMAMT'' (good_fields g j) = []"
  "values_for ''PAYMENTREQUEST_0_SHIPPINGAMT'' (good_fields g j) = []"
  by (simp_all add: good_fields_def field_facts)

lemma digital_good_fields_NAME:
  "values_for (Sprintf_s_d ''L_PAYMENTREQUEST_0_NAME'' (int j)) (digital_good_fields g j') =
     (if j' = j then [PayPalDigitalGood.Name g] else [])"
  by (simp add: digital_good_fields_def field_facts)

lemma digital_good_fields_AMT:
  "values_for (Sprintf_s_d ''L_PAYMENTREQUEST_0_AMT'' (int j)) (digital_good_fields g j') =
     (if j' = j then [Sprintf_2f (PayPalDigitalGood.Amount g)] else [])"
  by (simp add: digital_good_fields_def field_facts)

lemma digital_good_fields_QTY:
  "values_for (Sprintf_s_d ''L_PAYMENTREQUEST_0_QTY'' (int j)) (digital_good_fields g j') =
     (if j' = j then [Sprintf_d (PayPalDigitalGood.Quantity g)] else [])"
  by (simp add: digital_good_fields_def field_facts)

lemma digital_good_fields_ITEMCATEGORY:
  "values_for (Sprintf_s_d ''L_PAYMENTREQUEST_0_ITEMCATEGORY'' (int j)) (digital_good_fields g j') =
     (if j' = j then [''Digital''] else [])"
  by (simp add: digital_good_fields_def field_facts)

lemma digital_good_fields_keys:
  "fst ` set (digital_good_fields g j) =
     {Sprintf_s_d ''L_PAYMENTREQUEST_0_NAME'' (int j),
      Sprintf_s_d ''L_PAYMENTREQUEST_0_AMT'' (int j),
      Sprintf_s_d ''L_PAYMENTREQUEST_0_QTY'' (int j),
      Sprintf_s_d ''L_PAYMENTREQUEST_0_ITEMCATEGORY'' (int j)}"
  by (simp add: digital_good_fields_def)

lemma digital_good_fields_fixed:
  "values_for ''PAYMENTREQUEST_0_AMT'' (digital_good_fields g j) = []"
  by (simp add: digital_good_fields_def field_facts)

lemma concat_upt_if:
  "concat (map (\<lambda>j'. if j' = j then f j' else []) [0..<n]) = (if j < n then f j else [])"
  using concat_upt_single[of j "\<lambda>j'. if j' = j then f j' else []" n] by simp

lemma concat_Nil_map: "concat (map (\<lambda>j. []) js) = []"
  by (induction js) simp_all

lemmas index_fields =
  Values_index_add_fields Values_index_Nil values_for_concat concat_upt_if concat_Nil_map field_facts

lemma SetExpressCheckout_index_NAME:
  "Values_index (SetExpressCheckout_values order goods) (Sprintf_s_d ''L_PAYMENTREQUEST_0_NAME'' (int j)) =
     (if j < length goods then [PayPalGood.Name (goods ! j)]
      else if j = length goods \<and> gt_zero (Discount order) then [''DISCOUNT''] else [])"
  by (simp add: SetExpressCheckout_values_fields index_fields good_fields_NAME)

lemma SetExpressCheckout_index_AMT:
  "Values_index (SetExpressCheckout_values order goods) (Sprintf_s_d ''L_PAYMENTREQUEST_0_AMT'' (int j)) =
     (if j < length goods then [Sprintf_2f (PayPalGood.Amount (goods ! j))]
      else if j = length goods \<and> gt_zero (Discount order) then [Sprintf_2f (fneg (Discount order))]
      else [])"
  by (simp add: SetExpressCheckout_values_fields index_fields good_fields_AMT)

lemma SetExpressCheckout_index_QTY:
  "Values_index (SetExpressCheckout_values order goods) (Sprintf_s_d ''L_PAYMENTREQUEST_0_QTY'' (int j)) =
     (if j < length goods then [Sprintf_d (PayPalGood.Quantity (goods ! j))]
      else if j = length goods \<and> gt_zero (Discount order) then [''1''] else [])"
  by (simp add: SetExpressCheckout_values_fields index_fields good_fields_QTY)

lemma SetExpressCheckout_index_NUMBER:
  "Values_index (SetExpressCheckout_values order goods) (Sprintf_s_d ''L_PAYMENTREQUEST_0_NUMBER'' (int j)) =
     (if j < length goods \<and> Id (goods ! j) \<noteq> [] then [Id (goods ! j)] else [])"
  by (simp add: SetExpressCheckout_values_fields index_fields good_fields_NUMBER)

lemma SetExpressCheckout_index_amounts:
  "Values_index (SetExpressCheckout_values order goods) ''PAYMENTREQUEST_0_AMT'' = [Sprintf_2f (Total order)]"
  "Values_index (SetExpressCheckout_values order goods) ''PAYMENTREQUEST_0_ITEMAMT'' = [Sprintf_2f (SubTotal order)]"
  "Values_index (SetExpressCheckout_values order goods) ''PAYMENTREQUEST_0_SHIPPINGAMT'' = [Sprintf_2f (Shipping order)]"
  by (simp_all add: SetExpressCheckout_values_fields index_fields good_fields_fixed)

lemma Digital_index_NAME:
  "Values_index (SetExpressCheckoutDigitalGoods_values a c r x goods) (Sprintf_s_d ''L_PAYMENTREQUEST_0_NAME'' (int j)) =
     (if j < length goods then [PayPalDigitalGood.Name (goods ! j)] else [])"
  by (simp add: SetExpressCheckoutDigitalGoods_values_fields index_fields digital_good_fields_NAME)

lemma Digital_index_AMT:
  "Values_index (SetExpressCheckoutDigitalGoods_values a c r x goods) (Sprintf_s_d ''L_PAYMENTREQUEST_0_AMT'' (int j)) =
     (if j < length goods then [Sprintf_2f (PayPalDigitalGood.Amount (goods ! j))] else [])"
  by (simp add: SetExpressCheckoutDigitalGoods_values_fields index_fields digital_good_fields_AMT)

lemma Digital_index_QTY:
  "Values_index (SetExpressCheckoutDigitalGoods_values a c r x goods) (Sprintf_s_d ''L_PAYMENTREQUEST_0_QTY'' (int j)) =
     (if j < length goods then [Sprintf_d (PayPalDigitalGood.Quantity (goods ! j))] else [])"
  by (simp add: SetExpressCheckoutDigitalGoods_values_fields index_fields digital_good_fields_QTY)

lemma Digital_index_ITEMCATEGORY:
  "Values_index (SetExpressCheckoutDigitalGoods_values a c r x goods) (Sprintf_s_d ''L_PAYMENTREQUEST_0_ITEMCATEGORY'' (int j)) =
     (if j < length goods then [''Digital''] else [])"
  by (simp add: SetExpressCheckoutDigitalGoods_values_fields index_fields digital_good_fields_ITEMCATEGORY)

lemma Digital_index_amount:
  "Values_index (SetExpressCheckoutDigitalGoods_values a c r x goods) ''PAYMENTREQUEST_0_AMT'' = [Sprintf_2f a]"
  by (simp add: SetExpressCheckoutDigitalGoods_values_fields index_fields digital_good_fields_fixed)

lemma Payment_index_amount:
  "Values_index (DoExpressCheckoutPayment_values t p ty c a) ''PAYMENTREQUEST_0_AMT'' = [Sprintf_2f a]"
  by (simp add: DoExpressCheckoutPayment_values_fields index_fields)

lemma le_zero_not_gt_zero: "le_zero a \<Longrightarrow> \<not> gt_zero a"
  by (cases a) (simp_all add: le_zero_def gt_zero_def)

lemma set_concat_upt:
  "k \<in> fst ` set (concat (map f [0..<n])) \<longleftrightarrow> (\<exists>j<n. k \<in> fst ` set (f j))"
  by (induction n) (auto simp add: image_Un less_Suc_eq)

lemma index_nonempty_cases:
  "Values_index (add_fields [] (A @ B @ C)) k \<noteq> [] \<Longrightarrow>
     k \<in> fst ` set A \<or> k \<in> fst ` set B \<or> k \<in> fst ` set C"
  by (simp add: Values_index_add_fields Values_index_Nil values_for_nonempty image_Un)

lemma index_nonempty_cases2:
  "Values_index (add_fields [] (A @ B)) k \<noteq> [] \<Longrightarrow> k \<in> fst ` set A \<or> k \<in> fst ` set B"
  by (simp add: Values_index_add_fields Values_index_Nil values_for_nonempty image_Un)

lemma SetExpressCheckout_NAME_keys:
  assumes "Values_index (SetExpressCheckout_values order goods) (''L_PAYMENTREQUEST_0_NAME'' @ s) \<noteq> []"
  shows "\<exists>i. s = itoa i \<and> (i < length goods \<or> i = length goods \<and> gt_zero (Discount order))"
proof -
  note cases = index_nonempty_cases[OF assms[unfolded SetExpressCheckout_values_fields],
      unfolded set_concat_upt good_fields_keys]
  then show ?thesis
    by (auto simp add: Sprintf_s_d_int split: if_splits)
qed

lemma Digital_NAME_keys:
  assumes "Values_index (SetExpressCheckoutDigitalGoods_values a c r x goods) (''L_PAYMENTREQUEST_0_NAME'' @ s) \<noteq> []"
  shows "\<exists>i<length goods. s = itoa i"
proof -
  note cases = index_nonempty_cases2[OF assms[unfolded SetExpressCheckoutDigitalGoods_values_fields],
      unfolded set_concat_upt digital_good_fields_keys]
  then show ?thesis
    by (auto simp add: Sprintf_s_d_int)
qed

lemma Sprintf_2f_nonfinite:
  "Sprintf_2f PosInf = ''+Inf''" "Sprintf_2f NegInf = ''-Inf''" "Sprintf_2f NaN = ''NaN''"
  by (simp_all add: Sprintf_2f_def)

lemma Sprintf_2f_example: "Sprintf_2f (Finite (19999 / 1000)) = ''20.00''"
  by code_simp

lemma Sprintf_2f_10: "Sprintf_2f (Finite 10) = ''10.00''"
  by code_simp

lemma Sprintf_2f_discount: "Sprintf_2f (fneg (Finite (5 / 2))) = ''-2.50''"
  by code_simp

lemma Sprintf_2f_total: "Sprintf_2f (Finite (65 / 2)) = ''32.50''"
  by code_simp

lemma rhe_example: "round_half_even (19999 / 10) = 2000"
  by code_simp

section \<open>The properties\<close>

text \<open>
  C1. When the post and the reading of the body succeed and \<^verbatim>\<open>url.ParseQuery\<close> returns the
  mapping \<open>m\<close> with no error, \<^verbatim>\<open>PerformRequest\<close> returns the response populated from \<open>m\<close>
  (never nil), together with a \<^verbatim>\<open>PayPalError\<close> exactly when the \<^verbatim>\<open>L_ERRORCODE0\<close> value of
  \<open>m\<close> is non-empty or its lower-cased \<^verbatim>\<open>ACK\<close> value is \<^verbatim>\<open>failure\<close> or
  \<^verbatim>\<open>failurewithwarning\<close>, and with no error otherwise. The fields of the error are the
  \<^verbatim>\<open>ACK\<close>, \<^verbatim>\<open>L_ERRORCODE0\<close>, \<^verbatim>\<open>L_SHORTMESSAGE0\<close>, \<^verbatim>\<open>L_LONGMESSAGE0\<close> and
  \<^verbatim>\<open>L_SEVERITYCODE0\<close> values of \<open>m\<close>. In particular \<^verbatim>\<open>ACK=Success\<close> with no error-code
  field gives no error, and \<^verbatim>\<open>ACK=Failure\<close> gives an error whose Ack is \<^verbatim>\<open>Failure\<close>.
\<close>

theorem PerformRequest_remote_failure:
  assumes "client pClient (request_endpoint pClient) (request_values pClient values) = Inr (Inr body)"
      and "ParseQuery lib body = (m, None)"
  shows "PerformRequest lib pClient values =
           (Some \<lparr>PayPalResponse.Ack = Values_Get m ''ACK'',
                  CorrelationId = Values_Get m ''CORRELATIONID'',
                  Timestamp = Values_Get m ''TIMESTAMP'',
                  Version = Values_Get m ''VERSION'',
                  Build = Values_Get m ''BUILD'',
                  Token = Values_Get m ''TOKEN'',
                  Values = m,
                  usedSandbox = usesSandbox pClient\<rparr>,
            if Values_Get m ''L_ERRORCODE0'' \<noteq> []
               \<or> ToLower (unicodeLower lib) (Values_Get m ''ACK'') = ''failure''
               \<or> ToLower (unicodeLower lib) (Values_Get m ''ACK'') = ''failurewithwarning''
            then Some (PayPalErr
                   \<lparr>PayPalError.Ack = Values_Get m ''ACK'',
                    ErrorCode = Values_Get m ''L_ERRORCODE0'',
                    ShortMessage = Values_Get m ''L_SHORTMESSAGE0'',
                    LongMessage = Values_Get m ''L_LONGMESSAGE0'',
                    SeverityCode = Values_Get m ''L_SEVERITYCODE0''\<rparr>)
            else None)
         \<and> (Values_Get m ''ACK'' = ''Success'' \<and> Values_index m ''L_ERRORCODE0'' = []
              \<longrightarrow> snd (PerformRequest lib pClient values) = None)
         \<and> (Values_Get m ''ACK'' = ''Failure''
              \<longrightarrow> (\<exists>e. snd (PerformRequest lib pClient values) = Some (PayPalErr e)
                       \<and> PayPalError.Ack e = ''Failure''))"
proof -
  have eq: "PerformRequest lib pClient values =
           (Some \<lparr>PayPalResponse.Ack = Values_Get m ''ACK'',
                  CorrelationId = Values_Get m ''CORRELATIONID'',
                  Timestamp = Values_Get m ''TIMESTAMP'',
                  Version = Values_Get m ''VERSION'',
                  Build = Values_Get m ''BUILD'',
                  Token = Values_Get m ''TOKEN'',
                  Values = m,
                  usedSandbox = usesSandbox pClient\<rparr>,
            if Values_Get m ''L_ERRORCODE0'' \<noteq> []
               \<or> ToLower (unicodeLower lib) (Values_Get m ''ACK'') = ''failure''
               \<or> ToLower (unicodeLower lib) (Values_Get m ''ACK'') = ''failurewithwarning''
            then Some (PayPalErr
                   \<lparr>PayPalError.Ack = Values_Get m ''ACK'',
                    ErrorCode = Values_Get m ''L_ERRORCODE0'',
                    ShortMessage = Values_Get m ''L_SHORTMESSAGE0'',
                    LongMessage = Values_Get m ''L_LONGMESSAGE0'',
                    SeverityCode = Values_Get m ''L_SEVERITYCODE0''\<rparr>)
            else None)"
    using assms by (simp add: PerformRequest_def Let_def)
  have success: "snd (PerformRequest lib pClient values) = None"
    if "Values_Get m ''ACK'' = ''Success''" "Values_index m ''L_ERRORCODE0'' = []"
    using that by (simp add: eq ToLower_Success Values_Get_absent)
  have failure: "\<exists>e. snd (PerformRequest lib pClient values) = Some (PayPalErr e)
                       \<and> PayPalError.Ack e = ''Failure''"
    if "Values_Get m ''ACK'' = ''Failure''"
    using that by (simp add: eq ToLower_Failure)
  from eq success failure show ?thesis by blast
qed

theorem PerformRequest_remote_failure_witness:
  "PerformRequest \<lparr>ParseQuery = (\<lambda>body. ([(''ACK'', [''Failure''])], None)), unicodeLower = (\<lambda>s. s)\<rparr>
       \<lparr>username = ''u'', password = ''p'', signature = ''s'', usesSandbox = True,
        client = (\<lambda>endpoint values. Inr (Inr ''ACK=Failure''))\<rparr> []
     = (Some \<lparr>PayPalResponse.Ack = ''Failure'', CorrelationId = [], Timestamp = [], Version = [],
              Build = [], Token = [], Values = [(''ACK'', [''Failure''])], usedSandbox = True\<rparr>,
        Some (PayPalErr \<lparr>PayPalError.Ack = ''Failure'', ErrorCode = [], ShortMessage = [],
                         LongMessage = [], SeverityCode = []\<rparr>))"
  using PerformRequest_remote_failure
          [of "\<lparr>username = ''u'', password = ''p'', signature = ''s'', usesSandbox = True,
                client = (\<lambda>endpoint values. Inr (Inr ''ACK=Failure''))\<rparr>"
              "[]" "''ACK=Failure''"
              "\<lparr>ParseQuery = (\<lambda>body. ([(''ACK'', [''Failure''])], None)), unicodeLower = (\<lambda>s. s)\<rparr>"
              "[(''ACK'', [''Failure''])]"]
  by (auto simp add: Values_Get_def Values_index_def ToLower_Failure)

text \<open>
  C2. With \<open>n\<close> real goods, when \<^verbatim>\<open>order.Discount > 0\<close> the request of
  \<^verbatim>\<open>SetExpressCheckout\<close> has exactly one item at index \<open>n\<close>, after all real items: one
  name field \<^verbatim>\<open>DISCOUNT\<close>, one amount field with the two-decimal text of the negated
  discount, one quantity field \<^verbatim>\<open>1\<close>, no number field, and nothing at a later index.
  When the discount is not greater than 0 (it is at most 0, or it is NaN) there is no name,
  amount or quantity field at index \<open>n\<close> or later.
\<close>

theorem discount_line_item:
  "(gt_zero (Discount order) \<longrightarrow>
      Values_index (SetExpressCheckout_values order goods)
          (Sprintf_s_d ''L_PAYMENTREQUEST_0_NAME'' (int (length goods))) = [''DISCOUNT'']
    \<and> Values_index (SetExpressCheckout_values order goods)
          (Sprintf_s_d ''L_PAYMENTREQUEST_0_AMT'' (int (length goods))) = [Sprintf_2f (fneg (Discount order))]
    \<and> Values_index (SetExpressCheckout_values order goods)
          (Sprintf_s_d ''L_PAYMENTREQUEST_0_QTY'' (int (length goods))) = [''1'']
    \<and> Values_index (SetExpressCheckout_values order goods)
          (Sprintf_s_d ''L_PAYMENTREQUEST_0_NUMBER'' (int (length goods))) = []
    \<and> (length goods < j \<longrightarrow>
          Values_index (SetExpressCheckout_values order goods)
              (Sprintf_s_d ''L_PAYMENTREQUEST_0_NAME'' (int j)) = []
        \<and> Values_index (SetExpressCheckout_values order goods)
              (Sprintf_s_d ''L_PAYMENTREQUEST_0_AMT'' (int j)) = []
        \<and> Values_index (SetExpressCheckout_values order goods)
              (Sprintf_s_d ''L_PAYMENTREQUEST_0_QTY'' (int j)) = []))
   \<and> (\<not> gt_zero (Discount order) \<and> length goods \<le> j \<longrightarrow>
          Values_index (SetExpressCheckout_values order goods)
              (Sprintf_s_d ''L_PAYMENTREQUEST_0_NAME'' (int j)) = []
        \<and> Values_index (SetExpressCheckout_values order goods)
              (Sprintf_s_d ''L_PAYMENTREQUEST_0_AMT'' (int j)) = []
        \<and> Values_index (SetExpressCheckout_values order goods)
              (Sprintf_s_d ''L_PAYMENTREQUEST_0_QTY'' (int j)) = [])
   \<and> (le_zero (Discount order) \<longrightarrow> \<not> gt_zero (Discount order))"
  by (simp add: SetExpressCheckout_index_NAME SetExpressCheckout_index_AMT
      SetExpressCheckout_index_QTY SetExpressCheckout_index_NUMBER le_zero_not_gt_zero)

theorem discount_line_item_witness:
  "Values_index
     (SetExpressCheckout_values
        \<lparr>SubTotal = Finite 30, Shipping = Finite 5, Discount = Finite (5 / 2), Total = Finite (65 / 2),
         CurrencyCode = ''USD'', ReturnUrl = ''https://shop/ok'', CancelUrl = ''https://shop/no''\<rparr>
        [\<lparr>Id = ''sku-1'', Name = ''shoe'', Amount = Finite 10, Quantity = 2\<rparr>,
         \<lparr>Id = [], Name = ''sock'', Amount = Finite (19999 / 1000), Quantity = 1\<rparr>])
     ''L_PAYMENTREQUEST_0_NAME2'' = [''DISCOUNT'']
   \<and> Values_index
     (SetExpressCheckout_values
        \<lparr>SubTotal = Finite 30, Shipping = Finite 5, Discount = Finite (5 / 2), Total = Finite (65 / 2),
         CurrencyCode = ''USD'', ReturnUrl = ''https://shop/ok'', CancelUrl = ''https://shop/no''\<rparr>
        [\<lparr>Id = ''sku-1'', Name = ''shoe'', Amount = Finite 10, Quantity = 2\<rparr>,
         \<lparr>Id = [], Name = ''sock'', Amount = Finite (19999 / 1000), Quantity = 1\<rparr>])
     ''L_PAYMENTREQUEST_0_AMT2'' = [''-2.50'']
   \<and> Values_index
     (SetExpressCheckout_values
        \<lparr>SubTotal = Finite 30, Shipping = Finite 5, Discount = Finite (5 / 2), Total = Finite (65 / 2),
         CurrencyCode = ''USD'', ReturnUrl = ''https://shop/ok'', CancelUrl = ''https://shop/no''\<rparr>
        [\<lparr>Id = ''sku-1'', Name = ''shoe'', Amount = Finite 10, Quantity = 2\<rparr>,
         \<lparr>Id = [], Name = ''sock'', Amount = Finite (19999 / 1000), Quantity = 1\<rparr>])
     ''L_PAYMENTREQUEST_0_QTY2'' = [''1'']
   \<and> Values_index
     (SetExpressCheckout_values
        \<lparr>SubTotal = Finite 30, Shipping = Finite 5, Discount = Finite 0, Total = Finite 35,
         CurrencyCode = ''USD'', ReturnUrl = ''https://shop/ok'', CancelUrl = ''https://shop/no''\<rparr>
        [\<lparr>Id = ''sku-1'', Name = ''shoe'', Amount = Finite 10, Quantity = 2\<rparr>,
         \<lparr>Id = [], Name = ''sock'', Amount = Finite (19999 / 1000), Quantity = 1\<rparr>])
     ''L_PAYMENTREQUEST_0_NAME2'' = []"
  using discount_line_item
    [of "\<lparr>SubTotal = Finite 30, Shipping = Finite 5, Discount = Finite (5 / 2), Total = Finite (65 / 2),
          CurrencyCode = ''USD'', ReturnUrl = ''https://shop/ok'', CancelUrl = ''https://shop/no''\<rparr>"
        "[\<lparr>Id = ''sku-1'', Name = ''shoe'', Amount = Finite 10, Quantity = 2\<rparr>,
          \<lparr>Id = [], Name = ''sock'', Amount = Finite (19999 / 1000), Quantity = 1\<rparr>]" 3]
    discount_line_item
    [of "\<lparr>SubTotal = Finite 30, Shipping = Finite 5, Discount = Finite 0, Total = Finite 35,
          CurrencyCode = ''USD'', ReturnUrl = ''https://shop/ok'', CancelUrl = ''https://shop/no''\<rparr>"
        "[\<lparr>Id = ''sku-1'', Name = ''shoe'', Amount = Finite 10, Quantity = 2\<rparr>,
          \<lparr>Id = [], Name = ''sock'', Amount = Finite (19999 / 1000), Quantity = 1\<rparr>]" 2]
  by (simp add: Sprintf_s_d_def Sprintf_d_def itoa.simps digit_def Sprintf_2f_discount gt_zero_def)

text \<open>
  C3. For every element \<open>i\<close> of the goods, the request of \<^verbatim>\<open>SetExpressCheckout\<close> has
  exactly one \<^verbatim>\<open>L_PAYMENTREQUEST_0_NAME{i}\<close> field, the name, exactly one
  \<^verbatim>\<open>L_PAYMENTREQUEST_0_AMT{i}\<close> field, the amount to two decimals, exactly one
  \<^verbatim>\<open>L_PAYMENTREQUEST_0_QTY{i}\<close> field, and a \<^verbatim>\<open>L_PAYMENTREQUEST_0_NUMBER{i}\<close> field
  exactly when the identifier is non-empty. The request of
  \<^verbatim>\<open>SetExpressCheckoutDigitalGoods\<close> has the same three fields and
  \<^verbatim>\<open>L_PAYMENTREQUEST_0_ITEMCATEGORY{i}\<close> = \<^verbatim>\<open>Digital\<close> for every element. The indices
  are decimal, from 0 to the length minus 1: a key that starts with
  \<^verbatim>\<open>L_PAYMENTREQUEST_0_NAME\<close> and is present ends in the decimal text of such an index
  (or, for \<^verbatim>\<open>SetExpressCheckout\<close> with a discount, of the length itself: the discount
  item).
\<close>

theorem line_item_fields:
  "(i < length goods \<longrightarrow>
      Values_index (SetExpressCheckout_values order goods)
          (Sprintf_s_d ''L_PAYMENTREQUEST_0_NAME'' (int i)) = [PayPalGood.Name (goods ! i)]
    \<and> Values_index (SetExpressCheckout_values order goods)
          (Sprintf_s_d ''L_PAYMENTREQUEST_0_AMT'' (int i)) = [Sprintf_2f (PayPalGood.Amount (goods ! i))]
    \<and> Values_index (SetExpressCheckout_values order goods)
          (Sprintf_s_d ''L_PAYMENTREQUEST_0_QTY'' (int i)) = [Sprintf_d (PayPalGood.Quantity (goods ! i))]
    \<and> Values_index (SetExpressCheckout_values order goods)
          (Sprintf_s_d ''L_PAYMENTREQUEST_0_NUMBER'' (int i))
        = (if Id (goods ! i) \<noteq> [] then [Id (goods ! i)] else []))
   \<and> (Values_index (SetExpressCheckout_values order goods) (''L_PAYMENTREQUEST_0_NAME'' @ s) \<noteq> [] \<longrightarrow>
        (\<exists>n. s = itoa n \<and> (n < length goods \<or> n = length goods \<and> gt_zero (Discount order))))
   \<and> (i < length dgoods \<longrightarrow>
      Values_index (SetExpressCheckoutDigitalGoods_values paymentAmount currencyCode returnURL cancelURL dgoods)
          (Sprintf_s_d ''L_PAYMENTREQUEST_0_NAME'' (int i)) = [PayPalDigitalGood.Name (dgoods ! i)]
    \<and> Values_index (SetExpressCheckoutDigitalGoods_values paymentAmount currencyCode returnURL cancelURL dgoods)
          (Sprintf_s_d ''L_PAYMENTREQUEST_0_AMT'' (int i)) = [Sprintf_2f (PayPalDigitalGood.Amount (dgoods ! i))]
    \<and> Values_index (SetExpressCheckoutDigitalGoods_values paymentAmount currencyCode returnURL cancelURL dgoods)
          (Sprintf_s_d ''L_PAYMENTREQUEST_0_QTY'' (int i)) = [Sprintf_d (PayPalDigitalGood.Quantity (dgoods ! i))]
    \<and> Values_index (SetExpressCheckoutDigitalGoods_values paymentAmount currencyCode returnURL cancelURL dgoods)
          (Sprintf_s_d ''L_PAYMENTREQUEST_0_ITEMCATEGORY'' (int i)) = [''Digital''])
   \<and> (Values_index (SetExpressCheckoutDigitalGoods_values paymentAmount currencyCode returnURL cancelURL dgoods)
          (''L_PAYMENTREQUEST_0_NAME'' @ s) \<noteq> [] \<longrightarrow>
        (\<exists>n<length dgoods. s = itoa n))"
  using SetExpressCheckout_NAME_keys[of order goods s]
        Digital_NAME_keys[of paymentAmount currencyCode returnURL cancelURL dgoods s]
  by (simp add: SetExpressCheckout_index_NAME SetExpressCheckout_index_AMT
      SetExpressCheckout_index_QTY SetExpressCheckout_index_NUMBER
      Digital_index_NAME Digital_index_AMT Digital_index_QTY Digital_index_ITEMCATEGORY)

theorem line_item_fields_witness:
  "Values_index
     (SetExpressCheckout_values
        \<lparr>SubTotal = Finite 30, Shipping = Finite 5, Discount = Finite (5 / 2), Total = Finite (65 / 2),
         CurrencyCode = ''USD'', ReturnUrl = ''https://shop/ok'', CancelUrl = ''https://shop/no''\<rparr>
        [\<lparr>Id = ''sku-1'', Name = ''shoe'', Amount = Finite 10, Quantity = 2\<rparr>,
         \<lparr>Id = [], Name = ''sock'', Amount = Finite (19999 / 1000), Quantity = 1\<rparr>])
     ''L_PAYMENTREQUEST_0_NAME1'' = [''sock'']
   \<and> Values_index
     (SetExpressCheckout_values
        \<lparr>SubTotal = Finite 30, Shipping = Finite 5, Discount = Finite (5 / 2), Total = Finite (65 / 2),
         CurrencyCode = ''USD'', ReturnUrl = ''https://shop/ok'', CancelUrl = ''https://shop/no''\<rparr>
        [\<lparr>Id = ''sku-1'', Name = ''shoe'', Amount = Finite 10, Quantity = 2\<rparr>,
         \<lparr>Id = [], Name = ''sock'', Amount = Finite (19999 / 1000), Quantity = 1\<rparr>])
     ''L_PAYMENTREQUEST_0_AMT1'' = [''20.00'']
   \<and> Values_index
     (SetExpressCheckout_values
        \<lparr>SubTotal = Finite 30, Shipping = Finite 5, Discount = Finite (5 / 2), Total = Finite (65 / 2),
         CurrencyCode = ''USD'', ReturnUrl = ''https://shop/ok'', CancelUrl = ''https://shop/no''\<rparr>
        [\<lparr>Id = ''sku-1'', Name = ''shoe'', Amount = Finite 10, Quantity = 2\<rparr>,
         \<lparr>Id = [], Name = ''sock'', Amount = Finite (19999 / 1000), Quantity = 1\<rparr>])
     ''L_PAYMENTREQUEST_0_NUMBER1'' = []
   \<and> Values_index
     (SetExpressCheckoutDigitalGoods_values (Finite 10) ''USD'' ''https://shop/ok'' ''https://shop/no''
        [\<lparr>PayPalDigitalGood.Name = ''song'', Amount = Finite 10, Quantity = 1\<rparr>,
         \<lparr>PayPalDigitalGood.Name = ''album'', Amount = Finite 10, Quantity = 3\<rparr>])
     ''L_PAYMENTREQUEST_0_ITEMCATEGORY1'' = [''Digital'']"
  using line_item_fields
    [of 1 "[\<lparr>Id = ''sku-1'', Name = ''shoe'', Amount = Finite 10, Quantity = 2\<rparr>,
            \<lparr>Id = [], Name = ''sock'', Amount = Finite (19999 / 1000), Quantity = 1\<rparr>]"
        "\<lparr>SubTotal = Finite 30, Shipping = Finite 5, Discount = Finite (5 / 2), Total = Finite (65 / 2),
          CurrencyCode = ''USD'', ReturnUrl = ''https://shop/ok'', CancelUrl = ''https://shop/no''\<rparr>"
        "''1''"
        "[\<lparr>PayPalDigitalGood.Name = ''song'', Amount = Finite 10, Quantity = 1\<rparr>,
          \<lparr>PayPalDigitalGood.Name = ''album'', Amount = Finite 10, Quantity = 3\<rparr>]"
        "Finite 10" "''USD''" "''https://shop/ok''" "''https://shop/no''"]
  by (simp add: Sprintf_s_d_def Sprintf_d_def itoa.simps digit_def Sprintf_2f_example)

text \<open>
  C4. \<^verbatim>\<open>SumPayPalDigitalGoodAmounts\<close> returns the sum over the list of the products of
  \<^verbatim>\<open>Amount\<close> and \<^verbatim>\<open>Quantity\<close>: the float64 sum, taken from 0 from left to right, of the
  float64 products, which is the sum of the products in the rationals whenever no step
  rounds. It returns 0 for the empty list and 25 for the items (10, 2) and (5, 1).
\<close>

theorem SumPayPalDigitalGoodAmounts_sum:
  "SumPayPalDigitalGoodAmounts goods =
     foldl fadd (Finite 0)
       (map (\<lambda>dg. fmul (PayPalDigitalGood.Amount dg)
                        (float64_of_int (PayPalDigitalGood.Quantity dg))) goods)
   \<and> (no_rounding 0 goods \<longrightarrow> SumPayPalDigitalGoodAmounts goods = Finite (exact_total goods))
   \<and> SumPayPalDigitalGoodAmounts [] = Finite 0
   \<and> SumPayPalDigitalGoodAmounts
        [\<lparr>PayPalDigitalGood.Name = n1, Amount = Finite 10, Quantity = 2\<rparr>,
         \<lparr>PayPalDigitalGood.Name = n2, Amount = Finite 5, Quantity = 1\<rparr>] = Finite 25"
proof -
  have "no_rounding 0 goods \<Longrightarrow> SumPayPalDigitalGoodAmounts goods = Finite (exact_total goods)"
    using sum_range_exact[of 0 goods] by (simp add: SumPayPalDigitalGoodAmounts_def)
  then show ?thesis
    by (simp add: SumPayPalDigitalGoodAmounts_def sum_range_foldl
        fmul_10_2 fmul_5_1 fadd_0_20 fadd_20_5)
qed

theorem SumPayPalDigitalGoodAmounts_sum_witness:
  "no_rounding 0
     [\<lparr>PayPalDigitalGood.Name = ''song'', Amount = Finite 10, Quantity = 2\<rparr>,
      \<lparr>PayPalDigitalGood.Name = ''album'', Amount = Finite 5, Quantity = 1\<rparr>]
   \<and> SumPayPalDigitalGoodAmounts
        [\<lparr>PayPalDigitalGood.Name = ''song'', Amount = Finite 10, Quantity = 2\<rparr>,
         \<lparr>PayPalDigitalGood.Name = ''album'', Amount = Finite 5, Quantity = 1\<rparr>]
       = Finite (10 * 2 + 5 * 1)"
  using SumPayPalDigitalGoodAmounts_sum
          [of "[\<lparr>PayPalDigitalGood.Name = ''song'', Amount = Finite 10, Quantity = 2\<rparr>,
                \<lparr>PayPalDigitalGood.Name = ''album'', Amount = Finite 5, Quantity = 1\<rparr>]"]
        no_rounding_example [of "''song''" "''album''"]
  by (simp add: exact_total_def value_of_def)

text \<open>
  C5. \<^verbatim>\<open>Populate\<close> returns no error and its result is fixed by seven lookups: the five
  string fields are the first values of their keys (empty when the key is absent), and
  \<^verbatim>\<open>Amount\<close> and \<^verbatim>\<open>Fee\<close> are what \<^verbatim>\<open>ParseFloat\<close> gives on the texts of
  \<^verbatim>\<open>PAYMENTINFO_0_AMT\<close> and \<^verbatim>\<open>PAYMENTINFO_0_FEEAMT\<close>, its error dropped. So a text that
  is not a number, and an absent key (the empty text is not a number), give 0. A text that
  is a number, but one too large for a float64, gives the infinity of its sign.
\<close>

theorem Populate_projection:
  "Populate classify response values =
     \<lparr>TransactionId = Values_Get values ''PAYMENTINFO_0_TRANSACTIONID'',
      Status = Values_Get values ''PAYMENTINFO_0_PAYMENTSTATUS'',
      Type = Values_Get values ''PAYMENTINFO_0_PAYMENTTYPE'',
      Fee = fst (ParseFloat classify (Values_Get values ''PAYMENTINFO_0_FEEAMT'')),
      Amount = fst (ParseFloat classify (Values_Get values ''PAYMENTINFO_0_AMT'')),
      Currency = Values_Get values ''PAYMENTINFO_0_CURRENCYCODE'',
      ReasonCode = Values_Get values ''PAYMENTINFO_0_REASONCODE''\<rparr>
   \<and> (classify (Values_Get values ''PAYMENTINFO_0_AMT'') = IllFormed
        \<longrightarrow> PayPalPaymentResponse.Amount (Populate classify response values) = Finite 0)
   \<and> (classify (Values_Get values ''PAYMENTINFO_0_FEEAMT'') = IllFormed
        \<longrightarrow> Fee (Populate classify response values) = Finite 0)
   \<and> (Values_index values ''PAYMENTINFO_0_AMT'' = [] \<and> classify [] = IllFormed
        \<longrightarrow> PayPalPaymentResponse.Amount (Populate classify response values) = Finite 0)
   \<and> (Values_index values ''PAYMENTINFO_0_FEEAMT'' = [] \<and> classify [] = IllFormed
        \<longrightarrow> Fee (Populate classify response values) = Finite 0)
   \<and> (\<forall>key. Values_index values key = [] \<longrightarrow> Values_Get values key = [])
   \<and> (classify (Values_Get values ''PAYMENTINFO_0_AMT'') = OutOfRange neg
        \<longrightarrow> PayPalPaymentResponse.Amount (Populate classify response values)
              = (if neg then NegInf else PosInf))
   \<and> (classify (Values_Get values ''PAYMENTINFO_0_FEEAMT'') = OutOfRange neg
        \<longrightarrow> Fee (Populate classify response values) = (if neg then NegInf else PosInf))"
  by (cases response) (simp add: Populate_def Let_def ParseFloat_def Values_Get_absent)

theorem Populate_projection_witness:
  "Populate (\<lambda>s. if s = ''12.50'' then Numeral (Finite (25 / 2)) else IllFormed)
     \<lparr>TransactionId = ''old'', Status = ''old'', Type = ''old'', Fee = Finite 1, Amount = Finite 1,
      Currency = ''old'', ReasonCode = ''old''\<rparr>
     [(''PAYMENTINFO_0_AMT'', [''twelve'']), (''PAYMENTINFO_0_TRANSACTIONID'', [''T1'']),
      (''PAYMENTINFO_0_CURRENCYCODE'', [''USD''])]
   = \<lparr>TransactionId = ''T1'', Status = [], Type = [], Fee = Finite 0, Amount = Finite 0,
      Currency = ''USD'', ReasonCode = []\<rparr>"
  using Populate_projection
          [of "\<lambda>s. if s = ''12.50'' then Numeral (Finite (25 / 2)) else IllFormed"
              "\<lparr>TransactionId = ''old'', Status = ''old'', Type = ''old'', Fee = Finite 1,
                Amount = Finite 1, Currency = ''old'', ReasonCode = ''old''\<rparr>"
              "[(''PAYMENTINFO_0_AMT'', [''twelve'']), (''PAYMENTINFO_0_TRANSACTIONID'', [''T1'']),
                (''PAYMENTINFO_0_CURRENCYCODE'', [''USD''])]"]
  by (auto simp add: Values_Get_def Values_index_def ParseFloat_def)

text \<open>
  C6, as amended. \<^verbatim>\<open>CheckoutUrl\<close> returns the sandbox checkout base URL when the flag of
  the response is set and the production one otherwise, then \<^verbatim>\<open>?\<close>, then
  \<^verbatim>\<open>cmd=_express-checkout&token=\<close> and the query-escaped token. The escaped token is the
  token itself when the token has only letters, digits and \<^verbatim>\<open>- _ . ~\<close>; so a
  sandbox-flagged response with token \<^verbatim>\<open>EC-123\<close> gives the sandbox base URL with the query
  \<^verbatim>\<open>cmd=_express-checkout&token=EC-123\<close>. The flag read is the field of the response.
\<close>

theorem CheckoutUrl_escaped_token:
  "CheckoutUrl r =
     (if usedSandbox r then CHECKOUT_SANDBOX_URL else CHECKOUT_PRODUCTION_URL)
     @ ''?'' @ ''cmd=_express-checkout&token='' @ QueryEscape (Token r)
   \<and> (list_all unreserved (Token r) \<longrightarrow>
        CheckoutUrl r =
          (if usedSandbox r then CHECKOUT_SANDBOX_URL else CHECKOUT_PRODUCTION_URL)
          @ ''?'' @ ''cmd=_express-checkout&token='' @ Token r)
   \<and> (usedSandbox r \<and> Token r = ''EC-123'' \<longrightarrow>
        CheckoutUrl r =
          ''https://www.sandbox.paypal.com/cgi-bin/webscr?cmd=_express-checkout&token=EC-123'')"
proof -
  have "QueryEscape ''EC-123'' = ''EC-123''"
    by code_simp
  then show ?thesis
    by (auto simp add: CheckoutUrl_eq QueryEscape_unreserved CHECKOUT_SANDBOX_URL_def)
qed

theorem CheckoutUrl_escaped_token_witness:
  "CheckoutUrl \<lparr>PayPalResponse.Ack = ''Success'', CorrelationId = [], Timestamp = [],
                Version = ''94'', Build = [], Token = ''EC-123'', Values = [],
                usedSandbox = True\<rparr>
   = ''https://www.sandbox.paypal.com/cgi-bin/webscr?cmd=_express-checkout&token=EC-123''"
  using CheckoutUrl_escaped_token
          [of "\<lparr>PayPalResponse.Ack = ''Success'', CorrelationId = [], Timestamp = [],
                Version = ''94'', Build = [], Token = ''EC-123'', Values = [],
                usedSandbox = True\<rparr>"]
  by auto

text \<open>
  The claim C6 as it is written, with the token itself after \<^verbatim>\<open>token=\<close>, fails for a
  token with a space: the space is escaped to \<^verbatim>\<open>+\<close>.
\<close>

theorem CheckoutUrl_raw_token_counterexample:
  "CheckoutUrl \<lparr>PayPalResponse.Ack = ''Success'', CorrelationId = [], Timestamp = [],
                Version = ''94'', Build = [], Token = ''EC 123'', Values = [],
                usedSandbox = True\<rparr>
   \<noteq> CHECKOUT_SANDBOX_URL @ ''?'' @ ''cmd=_express-checkout&token='' @ ''EC 123''"
proof -
  have "QueryEscape ''EC 123'' = ''EC+123''"
    by code_simp
  then show ?thesis
    by (simp add: CheckoutUrl_eq)
qed

text \<open>
  C7. \<^verbatim>\<open>DoExpressCheckoutSale\<close> returns what \<^verbatim>\<open>DoExpressCheckoutPayment\<close> returns with
  the payment type \<^verbatim>\<open>Sale\<close>, for every client, token, payer, currency code and amount.
\<close>

theorem DoExpressCheckoutSale_is_Payment:
  "DoExpressCheckoutSale lib pClient token payerId currencyCode finalPaymentAmount =
     DoExpressCheckoutPayment lib pClient token payerId ''Sale'' currencyCode finalPaymentAmount"
  by (simp add: DoExpressCheckoutSale_def)

text \<open>
  C8, as amended. \<^verbatim>\<open>Error\<close> returns \<^verbatim>\<open>PayPal Error <code>: <short message>\<close> when the
  error code and the short message are both non-empty; otherwise the ack when the ack is
  non-empty; otherwise the maintenance message. So the maintenance message is returned
  exactly when the code and the short message are not both there and the ack is empty or
  is that message itself.
\<close>

theorem Error_message_cases:
  "(ErrorCode e \<noteq> [] \<and> ShortMessage e \<noteq> [] \<longrightarrow>
      Error e = ''PayPal Error '' @ ErrorCode e @ '': '' @ ShortMessage e)
   \<and> (\<not> (ErrorCode e \<noteq> [] \<and> ShortMessage e \<noteq> []) \<and> PayPalError.Ack e \<noteq> [] \<longrightarrow>
      Error e = PayPalError.Ack e)
   \<and> (\<not> (ErrorCode e \<noteq> [] \<and> ShortMessage e \<noteq> []) \<and> PayPalError.Ack e = [] \<longrightarrow>
      Error e = maintenance_message)
   \<and> (Error e = maintenance_message \<longleftrightarrow>
        \<not> (ErrorCode e \<noteq> [] \<and> ShortMessage e \<noteq> [])
        \<and> (PayPalError.Ack e = [] \<or> PayPalError.Ack e = maintenance_message))"
  by (auto simp add: Error_def maintenance_message_def)

theorem Error_message_cases_witness:
  "Error \<lparr>PayPalError.Ack = ''Failure'', ErrorCode = ''10001'', ShortMessage = ''Internal Error'',
          LongMessage = [], SeverityCode = ''Error''\<rparr> = ''PayPal Error 10001: Internal Error''
   \<and> Error \<lparr>PayPalError.Ack = ''Failure'', ErrorCode = ''10001'', ShortMessage = [],
            LongMessage = [], SeverityCode = []\<rparr> = ''Failure''
   \<and> Error \<lparr>PayPalError.Ack = [], ErrorCode = ''10001'', ShortMessage = [],
            LongMessage = [], SeverityCode = []\<rparr> = maintenance_message"
  using Error_message_cases
          [of "\<lparr>PayPalError.Ack = ''Failure'', ErrorCode = ''10001'',
                ShortMessage = ''Internal Error'', LongMessage = [], SeverityCode = ''Error''\<rparr>"]
        Error_message_cases
          [of "\<lparr>PayPalError.Ack = ''Failure'', ErrorCode = ''10001'', ShortMessage = [],
                LongMessage = [], SeverityCode = []\<rparr>"]
        Error_message_cases
          [of "\<lparr>PayPalError.Ack = [], ErrorCode = ''10001'', ShortMessage = [],
                LongMessage = [], SeverityCode = []\<rparr>"]
  by simp

text \<open>
  The claim C8 as it is written fails for an error whose ack is the maintenance message:
  the message is returned although the ack is populated.
\<close>

theorem Error_fallback_counterexample:
  "Error \<lparr>PayPalError.Ack = maintenance_message, ErrorCode = [], ShortMessage = [],
          LongMessage = [], SeverityCode = []\<rparr> = maintenance_message
   \<and> PayPalError.Ack \<lparr>PayPalError.Ack = maintenance_message, ErrorCode = [], ShortMessage = [],
                       LongMessage = [], SeverityCode = []\<rparr> \<noteq> []"
  by (simp add: Error_def maintenance_message_def)

text \<open>
  C9, as amended. Every amount field of the request builders (\<^verbatim>\<open>PAYMENTREQUEST_0_AMT\<close>,
  \<^verbatim>\<open>PAYMENTREQUEST_0_ITEMAMT\<close>, \<^verbatim>\<open>PAYMENTREQUEST_0_SHIPPINGAMT\<close>, every
  \<^verbatim>\<open>L_PAYMENTREQUEST_0_AMT{i}\<close> and the amount of the discount item) is the \<^verbatim>\<open>%.2f\<close> text
  of its input. For a finite input that text has exactly two decimal digits and denotes the
  input rounded to the nearest hundredth, ties to even, so it is off by at most 0.005;
  19.999 becomes \<^verbatim>\<open>20.00\<close>. An infinite input and NaN give \<^verbatim>\<open>+Inf\<close>, \<^verbatim>\<open>-Inf\<close> and
  \<^verbatim>\<open>NaN\<close>.
\<close>

theorem amount_fields_two_decimals:
  "Values_index (SetExpressCheckout_values order goods) ''PAYMENTREQUEST_0_AMT'' = [Sprintf_2f (Total order)]
   \<and> Values_index (SetExpressCheckout_values order goods) ''PAYMENTREQUEST_0_ITEMAMT'' = [Sprintf_2f (SubTotal order)]
   \<and> Values_index (SetExpressCheckout_values order goods) ''PAYMENTREQUEST_0_SHIPPINGAMT'' = [Sprintf_2f (Shipping order)]
   \<and> (i < length goods \<longrightarrow>
        Values_index (SetExpressCheckout_values order goods)
          (Sprintf_s_d ''L_PAYMENTREQUEST_0_AMT'' (int i)) = [Sprintf_2f (PayPalGood.Amount (goods ! i))])
   \<and> (gt_zero (Discount order) \<longrightarrow>
        Values_index (SetExpressCheckout_values order goods)
          (Sprintf_s_d ''L_PAYMENTREQUEST_0_AMT'' (int (length goods))) = [Sprintf_2f (fneg (Discount order))])
   \<and> Values_index (SetExpressCheckoutDigitalGoods_values paymentAmount currencyCode returnURL cancelURL dgoods)
        ''PAYMENTREQUEST_0_AMT'' = [Sprintf_2f paymentAmount]
   \<and> (i < length dgoods \<longrightarrow>
        Values_index (SetExpressCheckoutDigitalGoods_values paymentAmount currencyCode returnURL cancelURL dgoods)
          (Sprintf_s_d ''L_PAYMENTREQUEST_0_AMT'' (int i)) = [Sprintf_2f (PayPalDigitalGood.Amount (dgoods ! i))])
   \<and> Values_index (DoExpressCheckoutPayment_values token payerId paymentType currencyCode' finalPaymentAmount)
        ''PAYMENTREQUEST_0_AMT'' = [Sprintf_2f finalPaymentAmount]
   \<and> (is_finite a \<longrightarrow>
        two_decimals (Sprintf_2f a)
        \<and> decimal_value (Sprintf_2f a) * 100 = of_int (round_half_even (value_of a * 100))
        \<and> \<bar>decimal_value (Sprintf_2f a) - value_of a\<bar> \<le> 1 / 200)
   \<and> Sprintf_2f (Finite (19999 / 1000)) = ''20.00''
   \<and> Sprintf_2f PosInf = ''+Inf'' \<and> Sprintf_2f NegInf = ''-Inf'' \<and> Sprintf_2f NaN = ''NaN''"
  using Sprintf_2f_near[of a]
  by (simp add: SetExpressCheckout_index_amounts SetExpressCheckout_index_AMT Digital_index_amount
      Digital_index_AMT Payment_index_amount Sprintf_2f_two_decimals Sprintf_2f_value
      Sprintf_2f_example Sprintf_2f_nonfinite)

theorem amount_fields_two_decimals_witness:
  "Values_index
     (SetExpressCheckout_values
        \<lparr>SubTotal = Finite 30, Shipping = Finite 5, Discount = Finite (5 / 2), Total = Finite (65 / 2),
         CurrencyCode = ''USD'', ReturnUrl = ''https://shop/ok'', CancelUrl = ''https://shop/no''\<rparr>
        [\<lparr>Id = ''sku-1'', Name = ''shoe'', Amount = Finite 10, Quantity = 2\<rparr>,
         \<lparr>Id = [], Name = ''sock'', Amount = Finite (19999 / 1000), Quantity = 1\<rparr>])
     ''L_PAYMENTREQUEST_0_AMT1'' = [''20.00'']
   \<and> Values_index
     (SetExpressCheckout_values
        \<lparr>SubTotal = Finite 30, Shipping = Finite 5, Discount = Finite (5 / 2), Total = Finite (65 / 2),
         CurrencyCode = ''USD'', ReturnUrl = ''https://shop/ok'', CancelUrl = ''https://shop/no''\<rparr>
        [\<lparr>Id = ''sku-1'', Name = ''shoe'', Amount = Finite 10, Quantity = 2\<rparr>,
         \<lparr>Id = [], Name = ''sock'', Amount = Finite (19999 / 1000), Quantity = 1\<rparr>])
     ''PAYMENTREQUEST_0_AMT'' = [''32.50'']
   \<and> two_decimals (Sprintf_2f (Finite (19999 / 1000)))
   \<and> decimal_value (Sprintf_2f (Finite (19999 / 1000))) * 100 = 2000"
  using amount_fields_two_decimals
    [of "\<lparr>SubTotal = Finite 30, Shipping = Finite 5, Discount = Finite (5 / 2), Total = Finite (65 / 2),
          CurrencyCode = ''USD'', ReturnUrl = ''https://shop/ok'', CancelUrl = ''https://shop/no''\<rparr>"
        "[\<lparr>Id = ''sku-1'', Name = ''shoe'', Amount = Finite 10, Quantity = 2\<rparr>,
          \<lparr>Id = [], Name = ''sock'', Amount = Finite (19999 / 1000), Quantity = 1\<rparr>]"
        1 "Finite 10" "''USD''" "''https://shop/ok''" "''https://shop/no''"
        "[]" "''EC-123''" "''payer''" "''Sale''" "''USD''" "Finite 10" "Finite (19999 / 1000)"]
  by (auto simp add: Sprintf_s_d_def Sprintf_d_def itoa.simps digit_def Sprintf_2f_example
      Sprintf_2f_total is_finite_def value_of_def rhe_example)

text \<open>
  The claim C9 as it is written, for every input value, fails for an infinite amount: the
  field is \<^verbatim>\<open>+Inf\<close>, which has no decimal digits.
\<close>

theorem amount_field_infinite_counterexample:
  "Values_index (DoExpressCheckoutPayment_values ''EC-123'' ''payer'' ''Sale'' ''USD'' PosInf)
     ''PAYMENTREQUEST_0_AMT'' = [''+Inf'']
   \<and> \<not> two_decimals ''+Inf''"
proof -
  have "\<not> two_decimals ''+Inf''" by code_simp
  then show ?thesis by (simp add: Payment_index_amount Sprintf_2f_def)
qed

text \<open>
  C10. When the post fails, or the reading of the body fails, \<^verbatim>\<open>PerformRequest\<close> returns
  that error as it is, with a nil response, whatever the parser is: no response is built and
  nothing is parsed. The nil response is \<open>None\<close>: it has no field for a caller to read.
\<close>

theorem PerformRequest_transport_failure:
  "client pClient (request_endpoint pClient) (request_values pClient values) = Inl err
   \<or> client pClient (request_endpoint pClient) (request_values pClient values) = Inr (Inl err)
   \<Longrightarrow> PerformRequest lib pClient values = (None, Some (External err))"
  by (auto simp add: PerformRequest_def)

theorem PerformRequest_transport_failure_witness:
  "PerformRequest \<lparr>ParseQuery = (\<lambda>body. ([(''ACK'', [''Success''])], None)), unicodeLower = (\<lambda>s. s)\<rparr>
       \<lparr>username = ''u'', password = ''p'', signature = ''s'', usesSandbox = False,
        client = (\<lambda>endpoint values. Inr (Inl ''unexpected EOF''))\<rparr> []
     = (None, Some (External ''unexpected EOF''))"
  using PerformRequest_transport_failure
          [of "\<lparr>username = ''u'', password = ''p'', signature = ''s'', usesSandbox = False,
                client = (\<lambda>endpoint values. Inr (Inl ''unexpected EOF''))\<rparr>"
              "[]" "''unexpected EOF''"
              "\<lparr>ParseQuery = (\<lambda>body. ([(''ACK'', [''Success''])], None)), unicodeLower = (\<lambda>s. s)\<rparr>"]
  by simp

end
